theory Spec2Isabelle
  imports Main "HOL-Library.Sublist" "HOL-Library.Multiset"
begin

section \<open>Data model\<close>

text \<open>
  Identifiers are strings (UUIDs), timestamps are milliseconds since the epoch.
  Strings are lists of characters; what the JavaScript runtime and the crypto-js library
  do with them is not part of the model but a parameter of it (see \<open>platform\<close> below).
\<close>

type_synonym UUID = string
type_synonym timestamp = nat

datatype AuditAction =
  CREATE | UPDATE | DELETE | VIEW | EXPORT | LOGIN | LOGOUT | CONSENT_CHANGE | AI_DECISION

datatype ConsentStatus = GRANTED | REVOKED | PENDING | EXPIRED

datatype ConsentType =
  EMAIL | PHONE | VISIT | REMOTE_DETAILING | DATA_PROCESSING | MARKETING

text \<open>JSON values, for the \<^verbatim>\<open>jsonb\<close> columns and the audit snapshots.\<close>

datatype json = JNull | JBool bool | JNum int | JStr string | JObj "(string \<times> json) list"

text \<open>
  Errors as values: \<^verbatim>\<open>NotFoundError(entity, id)\<close>,
  \<^verbatim>\<open>ConsentRequiredError(hcpId, consentType)\<close>, the
  \<^verbatim>\<open>Error('Encryption key not configured')\<close> of the encryption utilities, the
  \<^verbatim>\<open>Error('Malformed UTF-8 data')\<close> that crypto-js throws when decrypted bytes are not
  a string, and the error a failed database write throws.
\<close>

datatype error =
    NotFoundError string UUID
  | ConsentRequiredError UUID ConsentType
  | EncryptionKeyNotConfigured
  | MalformedUtf8
  | DatabaseError

definition bindE :: "error + 'a \<Rightarrow> ('a \<Rightarrow> error + 'b) \<Rightarrow> error + 'b" where
  "bindE m f = (case m of Inl e \<Rightarrow> Inl e | Inr v \<Rightarrow> f v)"

text \<open>JavaScript truthiness of an optional string: \<^verbatim>\<open>undefined\<close> and \<^verbatim>\<open>''\<close> are falsy.\<close>

fun truthy :: "string option \<Rightarrow> bool" where
  "truthy None = False"
| "truthy (Some s) = (s \<noteq> [])"

section \<open>Field vault: \<^verbatim>\<open>utils/encryption.ts\<close>\<close>

text \<open>
  \<^verbatim>\<open>config.encryption\<close>: the key and IV read from the environment at process start
  (both default to the empty string).
\<close>

record encryption_config =
  key :: string
  iv :: string

text \<open>
  The primitives of the crypto-js library and of the JavaScript runtime are parameters of
  the model; nothing is assumed about them:
  \<^verbatim>\<open>CryptoJS.AES.encrypt(plaintext, Hex.parse(key), {iv: Hex.parse(iv)}).toString()\<close>,
  \<^verbatim>\<open>CryptoJS.AES.decrypt(ciphertext, Hex.parse(key), {iv: Hex.parse(iv)}).toString(Utf8)\<close>,
  which returns a string or throws \<^verbatim>\<open>Malformed UTF-8 data\<close> (\<open>None\<close>),
  \<^verbatim>\<open>CryptoJS.SHA256(message).toString()\<close> and \<^verbatim>\<open>String.prototype.toLowerCase\<close>. The
  first argument of the two AES functions is the text, the second the hex key, the third
  the hex IV.
\<close>

record platform =
  AES_encrypt :: "string \<Rightarrow> string \<Rightarrow> string \<Rightarrow> string"
  AES_decrypt :: "string \<Rightarrow> string \<Rightarrow> string \<Rightarrow> string option"
  SHA256 :: "string \<Rightarrow> string"
  toLowerCase :: "string \<Rightarrow> string"

definition encryptPII :: "platform \<Rightarrow> encryption_config \<Rightarrow> string \<Rightarrow> error + string" where
  "encryptPII lib cfg plaintext =
     (if key cfg = [] then Inl EncryptionKeyNotConfigured
      else Inr (AES_encrypt lib plaintext (key cfg) (iv cfg)))"

definition decryptPII :: "platform \<Rightarrow> encryption_config \<Rightarrow> string \<Rightarrow> error + string" where
  "decryptPII lib cfg ciphertext =
     (if key cfg = [] then Inl EncryptionKeyNotConfigured
      else case AES_decrypt lib ciphertext (key cfg) (iv cfg) of
             None \<Rightarrow> Inl MalformedUtf8
           | Some plaintext \<Rightarrow> Inr plaintext)"

definition hashForIndex :: "platform \<Rightarrow> encryption_config \<Rightarrow> string \<Rightarrow> string" where
  "hashForIndex lib cfg v = SHA256 lib (v @ key cfg)"

text \<open>
  A concrete instance of the parameters, for evaluating the model on examples. The
  cipher tags the reversed text with the first digits of key and IV; it decrypts what
  it encrypted when key and IV have the length of AES key material (32, 48 or 64 hex
  digits for the key, 32 for the IV), throws on a text with another tag, and returns the
  empty string under a key or IV of another length. The digest is the identity, the
  lower-casing that of the ASCII letters.
\<close>

definition demo_encrypt :: "string \<Rightarrow> string \<Rightarrow> string \<Rightarrow> string" where
  "demo_encrypt p k i = take 4 k @ ''|'' @ take 4 i @ ''|'' @ rev p"

definition demo_decrypt :: "string \<Rightarrow> string \<Rightarrow> string \<Rightarrow> string option" where
  "demo_decrypt c k i =
     (if (length k = 32 \<or> length k = 48 \<or> length k = 64) \<and> length i = 32 then
        (if take 10 c = take 4 k @ ''|'' @ take 4 i @ ''|'' then Some (rev (drop 10 c)) else None)
      else Some [])"

definition demo_lowerChar :: "char \<Rightarrow> char" where
  "demo_lowerChar c =
     (case map_of (zip ''ABCDEFGHIJKLMNOPQRSTUVWXYZ'' ''abcdefghijklmnopqrstuvwxyz'') c of
        None \<Rightarrow> c
      | Some l \<Rightarrow> l)"

definition demo_lib :: platform where
  "demo_lib =
     \<lparr> AES_encrypt = demo_encrypt, AES_decrypt = demo_decrypt, SHA256 = (\<lambda>m. m),
       toLowerCase = map demo_lowerChar \<rparr>"

definition demo_key :: string where
  "demo_key = ''00ff00ff00ff00ff00ff00ff00ff00ff''"

definition demo_cfg :: encryption_config where
  "demo_cfg = \<lparr> key = demo_key, iv = ''0a0b0a0b0a0b0a0b0a0b0a0b0a0b0a0b'' \<rparr>"


section \<open>Persisted rows and the database state\<close>

text \<open>
  The three tables of the trust layer as lists of rows in insertion order. Column names
  are those of the migration; the primary keys \<^verbatim>\<open>id\<close> are \<open>hid\<close>, \<open>cid\<close> and
  \<open>aid\<close>, and the \<^verbatim>\<open>metadata\<close>, \<^verbatim>\<open>notes\<close> and \<^verbatim>\<open>created_at\<close> columns of \<^verbatim>\<open>audit_log\<close> and
  \<^verbatim>\<open>consents\<close> carry a prefix, since record fields share one name space.
\<close>

record hcp_row =
  hid :: UUID
  external_id :: "string option"
  first_name_encrypted :: string
  first_name_hash :: string
  last_name_encrypted :: string
  last_name_hash :: string
  email_encrypted :: "string option"
  email_hash :: "string option"
  phone_encrypted :: "string option"
  phone_hash :: "string option"
  specialty :: string
  sub_specialty :: "string option"
  influence_level :: string
  primary_institution_id :: "UUID option"
  territory_id :: "UUID option"
  title :: "string option"
  years_of_practice :: "int option"
  languages :: "string list"
  therapeutic_areas :: "string list"
  metadata :: json
  is_active :: bool
  created_at :: timestamp
  updated_at :: timestamp
  deleted_at :: "timestamp option"

record consent_row =
  cid :: UUID
  hcp_id :: UUID
  consent_type :: ConsentType
  status :: ConsentStatus
  granted_at :: "timestamp option"
  revoked_at :: "timestamp option"
  expires_at :: "timestamp option"
  source :: "string option"
  evidence_url :: "string option"
  recorded_by :: UUID
  consent_notes :: "string option"
  c_created_at :: timestamp

record audit_row =
  aid :: UUID
  user_id :: "UUID option"
  action :: AuditAction
  entity_type :: string
  entity_id :: "UUID option"
  previous_state :: "json option"
  new_state :: "json option"
  ip_address :: string
  user_agent :: string
  a_metadata :: json
  a_created_at :: timestamp

record db =
  hcps :: "hcp_row list"
  consents :: "consent_row list"
  audit_log :: "audit_row list"

text \<open>
  What a request draws from outside the three tables: the clock (\<^verbatim>\<open>new Date()\<close>),
  the identifiers \<^verbatim>\<open>uuidv4()\<close> returns in the service and in \<^verbatim>\<open>createAuditEntry\<close>,
  whether the insert into \<^verbatim>\<open>audit_log\<close> succeeds, and whether a row written by
  \<^verbatim>\<open>create\<close>, \<^verbatim>\<open>update\<close> or \<^verbatim>\<open>recordConsent\<close> is accepted by the constraints of the
  schema that the model does not carry (foreign keys to institutions, territories and
  users, column widths, the connection). The primary keys, the unique external
  identifier and the foreign key from \<^verbatim>\<open>consents\<close> to \<^verbatim>\<open>hcps\<close> are checked on the
  tables themselves.
\<close>

record env =
  now :: timestamp
  uuid :: UUID
  audit_uuid :: UUID
  audit_insert_ok :: bool
  constraints_ok :: bool

text \<open>The parts of an Express request the handlers read.\<close>

record request =
  req_user :: "UUID option"
  req_method :: string
  req_ip :: "string option"
  socket_remoteAddress :: "string option"
  header_user_agent :: "string option"
  params_id :: UUID
  params_hcpId :: "string option"
  body_hcpId :: "string option"

section \<open>Subject repository: \<^verbatim>\<open>HCPService\<close>\<close>

text \<open>
  \<^verbatim>\<open>CreateHCPInput\<close> (fields \<open>c_\<close>), \<^verbatim>\<open>UpdateHCPInput = Partial<CreateHCPInput>\<close> (fields
  \<open>u_\<close>, \<open>None\<close> is \<^verbatim>\<open>undefined\<close>), \<^verbatim>\<open>CreateConsentInput\<close> (fields \<open>i_\<close>) and the
  decrypted view \<^verbatim>\<open>HCPRecord\<close> (fields \<open>r_\<close>).
\<close>

record CreateHCPInput =
  c_externalId :: "string option"
  c_firstName :: string
  c_lastName :: string
  c_email :: "string option"
  c_phone :: "string option"
  c_specialty :: string
  c_subSpecialty :: "string option"
  c_influenceLevel :: string
  c_primaryInstitutionId :: "UUID option"
  c_territoryId :: "UUID option"
  c_title :: "string option"
  c_yearsOfPractice :: "int option"
  c_languages :: "string list option"
  c_therapeuticAreas :: "string list option"
  c_metadata :: "json option"

record UpdateHCPInput =
  u_externalId :: "string option"
  u_firstName :: "string option"
  u_lastName :: "string option"
  u_email :: "string option"
  u_phone :: "string option"
  u_specialty :: "string option"
  u_subSpecialty :: "string option"
  u_influenceLevel :: "string option"
  u_primaryInstitutionId :: "UUID option"
  u_territoryId :: "UUID option"
  u_title :: "string option"
  u_yearsOfPractice :: "int option"
  u_languages :: "string list option"
  u_therapeuticAreas :: "string list option"
  u_metadata :: "json option"

record CreateConsentInput =
  i_hcpId :: UUID
  i_consentType :: ConsentType
  i_status :: ConsentStatus
  i_expiresAt :: "timestamp option"
  i_source :: "string option"
  i_evidenceUrl :: "string option"
  i_notes :: "string option"

record HCPRecord =
  r_id :: UUID
  r_externalId :: "string option"
  r_firstName :: string
  r_lastName :: string
  r_email :: "string option"
  r_phone :: "string option"
  r_specialty :: string
  r_subSpecialty :: "string option"
  r_influenceLevel :: string
  r_primaryInstitutionId :: "UUID option"
  r_territoryId :: "UUID option"
  r_title :: "string option"
  r_yearsOfPractice :: "int option"
  r_languages :: "string list"
  r_therapeuticAreas :: "string list"
  r_metadata :: json
  r_isActive :: bool
  r_createdAt :: timestamp
  r_updatedAt :: timestamp

text \<open>\<^verbatim>\<open>v ? encryptPII(v) : null\<close> and \<^verbatim>\<open>v ? hashForIndex(f(v)) : null\<close>.\<close>

definition encryptIfTruthy ::
  "platform \<Rightarrow> encryption_config \<Rightarrow> string option \<Rightarrow> error + string option" where
  "encryptIfTruthy lib cfg v =
     (case v of
        None \<Rightarrow> Inr None
      | Some s \<Rightarrow> if s = [] then Inr None
                  else bindE (encryptPII lib cfg s) (\<lambda>c. Inr (Some c)))"

definition hashIfTruthy ::
  "platform \<Rightarrow> encryption_config \<Rightarrow> (string \<Rightarrow> string) \<Rightarrow> string option \<Rightarrow> string option" where
  "hashIfTruthy lib cfg f v =
     (case v of
        None \<Rightarrow> None
      | Some s \<Rightarrow> if s = [] then None else Some (hashForIndex lib cfg (f s)))"

text \<open>\<^verbatim>\<open>row.c ? decryptPII(row.c) : undefined\<close>.\<close>

definition decryptIfTruthy ::
  "platform \<Rightarrow> encryption_config \<Rightarrow> string option \<Rightarrow> error + string option" where
  "decryptIfTruthy lib cfg v =
     (case v of
        None \<Rightarrow> Inr None
      | Some s \<Rightarrow> if s = [] then Inr None
                  else bindE (decryptPII lib cfg s) (\<lambda>p. Inr (Some p)))"

definition decryptHCPRow :: "platform \<Rightarrow> encryption_config \<Rightarrow> hcp_row \<Rightarrow> error + HCPRecord" where
  "decryptHCPRow lib cfg row =
     bindE (decryptPII lib cfg (first_name_encrypted row)) (\<lambda>fn.
     bindE (decryptPII lib cfg (last_name_encrypted row)) (\<lambda>ln.
     bindE (decryptIfTruthy lib cfg (email_encrypted row)) (\<lambda>em.
     bindE (decryptIfTruthy lib cfg (phone_encrypted row)) (\<lambda>ph.
     Inr \<lparr> r_id = hid row,
           r_externalId = external_id row,
           r_firstName = fn,
           r_lastName = ln,
           r_email = em,
           r_phone = ph,
           r_specialty = specialty row,
           r_subSpecialty = sub_specialty row,
           r_influenceLevel = influence_level row,
           r_primaryInstitutionId = primary_institution_id row,
           r_territoryId = territory_id row,
           r_title = title row,
           r_yearsOfPractice = years_of_practice row,
           r_languages = languages row,
           r_therapeuticAreas = therapeutic_areas row,
           r_metadata = metadata row,
           r_isActive = is_active row,
           r_createdAt = created_at row,
           r_updatedAt = updated_at row \<rparr>))))"

text \<open>\<^verbatim>\<open>db('hcps').where({ id, deleted_at: null }).first()\<close> and \<^verbatim>\<open>db('hcps').where({ id }).first()\<close>.\<close>

definition first_live :: "db \<Rightarrow> UUID \<Rightarrow> hcp_row option" where
  "first_live d i = find (\<lambda>r. hid r = i \<and> deleted_at r = None) (hcps d)"

definition first_any :: "db \<Rightarrow> UUID \<Rightarrow> hcp_row option" where
  "first_any d i = find (\<lambda>r. hid r = i) (hcps d)"

text \<open>\<^verbatim>\<open>db('hcps').where({ id }).update(updates)\<close>.\<close>

definition update_where_id :: "UUID \<Rightarrow> (hcp_row \<Rightarrow> hcp_row) \<Rightarrow> db \<Rightarrow> db" where
  "update_where_id i f d = d\<lparr> hcps := map (\<lambda>r. if hid r = i then f r else r) (hcps d) \<rparr>"

definition getById :: "platform \<Rightarrow> encryption_config \<Rightarrow> UUID \<Rightarrow> db \<Rightarrow> error + HCPRecord" where
  "getById lib cfg i d =
     (case first_live d i of
        None \<Rightarrow> Inl (NotFoundError ''HCP'' i)
      | Some row \<Rightarrow> decryptHCPRow lib cfg row)"

text \<open>
  The mutating methods take the database and return the outcome and the database after
  the call: a call that throws leaves what it has written so far.
\<close>

type_synonym 'a action = "db \<Rightarrow> (error + 'a) \<times> db"

definition bindS :: "'a action \<Rightarrow> ('a \<Rightarrow> 'b action) \<Rightarrow> 'b action" where
  "bindS m f d = (case m d of (Inl e, d') \<Rightarrow> (Inl e, d') | (Inr v, d') \<Rightarrow> f v d')"

definition readS :: "(db \<Rightarrow> error + 'a) \<Rightarrow> 'a action" where
  "readS q d = (q d, d)"

text \<open>
  \<^verbatim>\<open>db('hcps').insert(record)\<close>: the insert throws, and stores nothing, when the
  identifier or a non-null external identifier is already in the table or another
  constraint rejects the row.
\<close>

definition insert_hcps :: "env \<Rightarrow> hcp_row \<Rightarrow> unit action" where
  "insert_hcps e record d =
     (if constraints_ok e
         \<and> hid record \<notin> set (map hid (hcps d))
         \<and> (external_id record = None \<or> external_id record \<notin> set (map external_id (hcps d)))
      then (Inr (), d\<lparr> hcps := hcps d @ [record] \<rparr>)
      else (Inl DatabaseError, d))"

definition create :: "platform \<Rightarrow> encryption_config \<Rightarrow> env \<Rightarrow> CreateHCPInput \<Rightarrow> HCPRecord action" where
  "create lib cfg e input d =
     (case
        bindE (encryptPII lib cfg (c_firstName input)) (\<lambda>fn.
        bindE (encryptPII lib cfg (c_lastName input)) (\<lambda>ln.
        bindE (encryptIfTruthy lib cfg (c_email input)) (\<lambda>em.
        bindE (encryptIfTruthy lib cfg (c_phone input)) (\<lambda>ph.
        Inr \<lparr> hid = uuid e,
              external_id = c_externalId input,
              first_name_encrypted = fn,
              first_name_hash = hashForIndex lib cfg (toLowerCase lib (c_firstName input)),
              last_name_encrypted = ln,
              last_name_hash = hashForIndex lib cfg (toLowerCase lib (c_lastName input)),
              email_encrypted = em,
              email_hash = hashIfTruthy lib cfg (toLowerCase lib) (c_email input),
              phone_encrypted = ph,
              phone_hash = hashIfTruthy lib cfg (\<lambda>v. v) (c_phone input),
              specialty = c_specialty input,
              sub_specialty = c_subSpecialty input,
              influence_level = c_influenceLevel input,
              primary_institution_id = c_primaryInstitutionId input,
              territory_id = c_territoryId input,
              title = c_title input,
              years_of_practice = c_yearsOfPractice input,
              languages = (case c_languages input of None \<Rightarrow> [] | Some l \<Rightarrow> l),
              therapeutic_areas = (case c_therapeuticAreas input of None \<Rightarrow> [] | Some l \<Rightarrow> l),
              metadata = (case c_metadata input of None \<Rightarrow> JObj [] | Some m \<Rightarrow> m),
              is_active = True,
              created_at = now e,
              updated_at = now e,
              deleted_at = None \<rparr>))))
      of
        Inl err \<Rightarrow> (Inl err, d)
      | Inr record \<Rightarrow>
          (case insert_hcps e record d of
             (Inl err, d') \<Rightarrow> (Inl err, d')
           | (Inr _, d') \<Rightarrow> (getById lib cfg (uuid e) d', d')))"

text \<open>
  The \<^verbatim>\<open>updates\<close> object of \<^verbatim>\<open>update\<close>, as the function it applies to a row: the
  modification time first, then one assignment for each attribute that is not
  \<^verbatim>\<open>undefined\<close>.
\<close>

definition setIfDefined :: "'a option \<Rightarrow> ('a \<Rightarrow> hcp_row \<Rightarrow> hcp_row) \<Rightarrow> hcp_row \<Rightarrow> hcp_row" where
  "setIfDefined v f row = (case v of None \<Rightarrow> row | Some x \<Rightarrow> f x row)"

definition nonPIIUpdates :: "UpdateHCPInput \<Rightarrow> hcp_row \<Rightarrow> hcp_row" where
  "nonPIIUpdates input =
     setIfDefined (u_metadata input) (\<lambda>v r. r\<lparr> metadata := v \<rparr>) \<circ>
     setIfDefined (u_therapeuticAreas input) (\<lambda>v r. r\<lparr> therapeutic_areas := v \<rparr>) \<circ>
     setIfDefined (u_languages input) (\<lambda>v r. r\<lparr> languages := v \<rparr>) \<circ>
     setIfDefined (u_yearsOfPractice input) (\<lambda>v r. r\<lparr> years_of_practice := Some v \<rparr>) \<circ>
     setIfDefined (u_title input) (\<lambda>v r. r\<lparr> title := Some v \<rparr>) \<circ>
     setIfDefined (u_territoryId input) (\<lambda>v r. r\<lparr> territory_id := Some v \<rparr>) \<circ>
     setIfDefined (u_primaryInstitutionId input) (\<lambda>v r. r\<lparr> primary_institution_id := Some v \<rparr>) \<circ>
     setIfDefined (u_influenceLevel input) (\<lambda>v r. r\<lparr> influence_level := v \<rparr>) \<circ>
     setIfDefined (u_subSpecialty input) (\<lambda>v r. r\<lparr> sub_specialty := Some v \<rparr>) \<circ>
     setIfDefined (u_specialty input) (\<lambda>v r. r\<lparr> specialty := v \<rparr>)"

definition buildUpdates ::
  "platform \<Rightarrow> encryption_config \<Rightarrow> env \<Rightarrow> UpdateHCPInput \<Rightarrow> error + (hcp_row \<Rightarrow> hcp_row)" where
  "buildUpdates lib cfg e input =
     bindE (case u_firstName input of
              None \<Rightarrow> Inr (\<lambda>r. r)
            | Some v \<Rightarrow> bindE (encryptPII lib cfg v) (\<lambda>c.
                Inr (\<lambda>r. r\<lparr> first_name_encrypted := c,
                              first_name_hash := hashForIndex lib cfg (toLowerCase lib v) \<rparr>))) (\<lambda>f1.
     bindE (case u_lastName input of
              None \<Rightarrow> Inr (\<lambda>r. r)
            | Some v \<Rightarrow> bindE (encryptPII lib cfg v) (\<lambda>c.
                Inr (\<lambda>r. r\<lparr> last_name_encrypted := c,
                              last_name_hash := hashForIndex lib cfg (toLowerCase lib v) \<rparr>))) (\<lambda>f2.
     bindE (case u_email input of
              None \<Rightarrow> Inr (\<lambda>r. r)
            | Some v \<Rightarrow> bindE (encryptIfTruthy lib cfg (Some v)) (\<lambda>c.
                Inr (\<lambda>r. r\<lparr> email_encrypted := c,
                              email_hash := hashIfTruthy lib cfg (toLowerCase lib) (Some v) \<rparr>))) (\<lambda>f3.
     bindE (case u_phone input of
              None \<Rightarrow> Inr (\<lambda>r. r)
            | Some v \<Rightarrow> bindE (encryptIfTruthy lib cfg (Some v)) (\<lambda>c.
                Inr (\<lambda>r. r\<lparr> phone_encrypted := c,
                              phone_hash := hashIfTruthy lib cfg (\<lambda>v. v) (Some v) \<rparr>))) (\<lambda>f4.
     Inr (nonPIIUpdates input \<circ> f4 \<circ> f3 \<circ> f2 \<circ> f1 \<circ> (\<lambda>r. r\<lparr> updated_at := now e \<rparr>))))))"

definition update ::
  "platform \<Rightarrow> encryption_config \<Rightarrow> env \<Rightarrow> UUID \<Rightarrow> UpdateHCPInput \<Rightarrow> HCPRecord action" where
  "update lib cfg e i input d =
     (case first_live d i of
        None \<Rightarrow> (Inl (NotFoundError ''HCP'' i), d)
      | Some existing \<Rightarrow>
          (case buildUpdates lib cfg e input of
             Inl err \<Rightarrow> (Inl err, d)
           | Inr updates \<Rightarrow>
               if constraints_ok e then
                 (let d' = update_where_id i updates d
                  in (getById lib cfg i d', d'))
               else (Inl DatabaseError, d)))"

definition softDelete :: "env \<Rightarrow> UUID \<Rightarrow> unit action" where
  "softDelete e i d =
     (case first_live d i of
        None \<Rightarrow> (Inl (NotFoundError ''HCP'' i), d)
      | Some existing \<Rightarrow>
          (Inr (), update_where_id i (\<lambda>r. r\<lparr> deleted_at := Some (now e), is_active := False \<rparr>) d))"

text \<open>
  \<^verbatim>\<open>anonymize\<close>: the lookup has no \<^verbatim>\<open>deleted_at\<close> filter. The value of
  \<^verbatim>\<open>anonymized_at\<close> is the clock reading (the source stores its ISO string).
\<close>

definition anonymize :: "platform \<Rightarrow> encryption_config \<Rightarrow> env \<Rightarrow> UUID \<Rightarrow> unit action" where
  "anonymize lib cfg e i d =
     (case first_any d i of
        None \<Rightarrow> (Inl (NotFoundError ''HCP'' i), d)
      | Some existing \<Rightarrow>
          (case
             bindE (encryptPII lib cfg ''[ANONYMIZED]'') (\<lambda>fn.
             bindE (encryptPII lib cfg ''[ANONYMIZED]'') (\<lambda>ln.
             Inr (\<lambda>r. r\<lparr> first_name_encrypted := fn,
                           first_name_hash := hashForIndex lib cfg ''[ANONYMIZED]'',
                           last_name_encrypted := ln,
                           last_name_hash := hashForIndex lib cfg ''[ANONYMIZED]'',
                           email_encrypted := None,
                           email_hash := None,
                           phone_encrypted := None,
                           phone_hash := None,
                           external_id := None,
                           is_active := False,
                           deleted_at := Some (now e),
                           metadata := JObj [(''anonymized'', JBool True),
                                             (''anonymized_at'', JNum (int (now e)))] \<rparr>)))
           of
             Inl err \<Rightarrow> (Inl err, d)
           | Inr updates \<Rightarrow> (Inr (), update_where_id i updates d)))"

text \<open>
  \<^verbatim>\<open>recordConsent\<close>: one insert into \<^verbatim>\<open>consents\<close>; \<^verbatim>\<open>created_at\<close> is the column's
  default, the time of the insert. The insert throws, and stores nothing, when the
  identifier is already in the table, the subject is not in \<^verbatim>\<open>hcps\<close>, or another
  constraint rejects the row.
\<close>

definition recordConsent :: "env \<Rightarrow> CreateConsentInput \<Rightarrow> UUID \<Rightarrow> consent_row action" where
  "recordConsent e input recordedBy d =
     (let record = \<lparr> cid = uuid e,
                     hcp_id = i_hcpId input,
                     consent_type = i_consentType input,
                     status = i_status input,
                     granted_at = (if i_status input = GRANTED then Some (now e) else None),
                     revoked_at = (if i_status input = REVOKED then Some (now e) else None),
                     expires_at = i_expiresAt input,
                     source = i_source input,
                     evidence_url = i_evidenceUrl input,
                     recorded_by = recordedBy,
                     consent_notes = i_notes input,
                     c_created_at = now e \<rparr>
      in if constraints_ok e
            \<and> cid record \<notin> set (map cid (consents d))
            \<and> hcp_id record \<in> set (map hid (hcps d))
         then (Inr record, d\<lparr> consents := consents d @ [record] \<rparr>)
         else (Inl DatabaseError, d))"

section \<open>Audit trail: \<^verbatim>\<open>middleware/audit.ts\<close>\<close>

record audit_params =
  p_userId :: UUID
  p_action :: AuditAction
  p_entityType :: string
  p_entityId :: "UUID option"
  p_previousState :: "json option"
  p_newState :: "json option"
  p_ipAddress :: string
  p_userAgent :: string
  p_metadata :: "json option"

text \<open>
  \<^verbatim>\<open>createAuditEntry\<close>: one insert into \<^verbatim>\<open>audit_log\<close>; when the insert throws, the
  error is logged and thrown again.
\<close>

definition createAuditEntry :: "env \<Rightarrow> audit_params \<Rightarrow> unit action" where
  "createAuditEntry e params d =
     (if audit_insert_ok e then
        (Inr (),
         d\<lparr> audit_log := audit_log d @
              [\<lparr> aid = audit_uuid e,
                 user_id = Some (p_userId params),
                 action = p_action params,
                 entity_type = p_entityType params,
                 entity_id = p_entityId params,
                 previous_state = p_previousState params,
                 new_state = p_newState params,
                 ip_address = p_ipAddress params,
                 user_agent = p_userAgent params,
                 a_metadata = (case p_metadata params of None \<Rightarrow> JObj [] | Some m \<Rightarrow> m),
                 a_created_at = now e \<rparr>] \<rparr>)
      else (Inl DatabaseError, d))"

definition orElse :: "string option \<Rightarrow> string option \<Rightarrow> string option" where
  "orElse a b = (if truthy a then a else b)"

definition orUnknown :: "string option \<Rightarrow> string" where
  "orUnknown a = (case a of None \<Rightarrow> ''unknown'' | Some s \<Rightarrow> if s = [] then ''unknown'' else s)"

definition getRequestMeta :: "request \<Rightarrow> string \<times> string" where
  "getRequestMeta req =
     (orUnknown (orElse (req_ip req) (socket_remoteAddress req)),
      orUnknown (header_user_agent req))"

text \<open>
  \<^verbatim>\<open>auditDataAccess\<close>: the view entry is written without waiting and its failure is
  only logged; the request goes on in both cases.
\<close>

definition auditDataAccess :: "env \<Rightarrow> string \<Rightarrow> request \<Rightarrow> db \<Rightarrow> db" where
  "auditDataAccess e entityType req d =
     (case req_user req of
        None \<Rightarrow> d
      | Some u \<Rightarrow>
          if req_method req = ''GET'' then
            snd (createAuditEntry e
                   \<lparr> p_userId = u, p_action = VIEW, p_entityType = entityType,
                     p_entityId = Some (params_id req), p_previousState = None,
                     p_newState = None, p_ipAddress = orUnknown (req_ip req),
                     p_userAgent = orUnknown (header_user_agent req),
                     p_metadata = None \<rparr> d)
          else d)"

section \<open>Route handlers: \<^verbatim>\<open>hcp.routes.ts\<close>\<close>

text \<open>
  The handlers run behind \<^verbatim>\<open>authenticate\<close>, which sets \<^verbatim>\<open>req.user\<close>; \<open>userId\<close> is
  \<^verbatim>\<open>req.user!.id\<close>. Each handler calls the service, then \<^verbatim>\<open>createAuditEntry\<close>, then
  answers; an error thrown on the way goes to \<^verbatim>\<open>next(error)\<close>.
\<close>

datatype response_data =
    HcpData HCPRecord
  | DeletedData UUID
  | AnonymizedData UUID
  | ConsentData consent_row

record response =
  res_status :: nat
  res_data :: response_data

definition returnS :: "'a \<Rightarrow> 'a action" where
  "returnS v d = (Inr v, d)"

definition classification :: "HCPRecord \<Rightarrow> json" where
  "classification hcp =
     JObj [(''specialty'', JStr (r_specialty hcp)),
           (''influenceLevel'', JStr (r_influenceLevel hcp))]"

definition post_hcps ::
  "platform \<Rightarrow> encryption_config \<Rightarrow> env \<Rightarrow> UUID \<Rightarrow> request \<Rightarrow> CreateHCPInput \<Rightarrow> response action" where
  "post_hcps lib cfg e userId req body =
     bindS (create lib cfg e body) (\<lambda>hcp.
     bindS (createAuditEntry e
              \<lparr> p_userId = userId, p_action = CREATE, p_entityType = ''hcp'',
                p_entityId = Some (r_id hcp), p_previousState = None,
                p_newState = Some (classification hcp),
                p_ipAddress = fst (getRequestMeta req),
                p_userAgent = snd (getRequestMeta req), p_metadata = None \<rparr>) (\<lambda>_.
     returnS \<lparr> res_status = 201, res_data = HcpData hcp \<rparr>))"

definition get_hcp ::
  "platform \<Rightarrow> encryption_config \<Rightarrow> env \<Rightarrow> request \<Rightarrow> response action" where
  "get_hcp lib cfg e req d =
     (let d' = auditDataAccess e ''hcp'' req d
      in bindS (readS (getById lib cfg (params_id req))) (\<lambda>hcp.
         returnS \<lparr> res_status = 200, res_data = HcpData hcp \<rparr>) d')"

definition patch_hcp ::
  "platform \<Rightarrow> encryption_config \<Rightarrow> env \<Rightarrow> UUID \<Rightarrow> request \<Rightarrow> UpdateHCPInput \<Rightarrow> response action" where
  "patch_hcp lib cfg e userId req body =
     bindS (readS (getById lib cfg (params_id req))) (\<lambda>previousHcp.
     bindS (update lib cfg e (params_id req) body) (\<lambda>updatedHcp.
     bindS (createAuditEntry e
              \<lparr> p_userId = userId, p_action = UPDATE, p_entityType = ''hcp'',
                p_entityId = Some (params_id req),
                p_previousState = Some (classification previousHcp),
                p_newState = Some (classification updatedHcp),
                p_ipAddress = fst (getRequestMeta req),
                p_userAgent = snd (getRequestMeta req), p_metadata = None \<rparr>) (\<lambda>_.
     returnS \<lparr> res_status = 200, res_data = HcpData updatedHcp \<rparr>)))"

definition delete_hcp :: "env \<Rightarrow> UUID \<Rightarrow> request \<Rightarrow> response action" where
  "delete_hcp e userId req =
     bindS (softDelete e (params_id req)) (\<lambda>_.
     bindS (createAuditEntry e
              \<lparr> p_userId = userId, p_action = DELETE, p_entityType = ''hcp'',
                p_entityId = Some (params_id req), p_previousState = None,
                p_newState = None,
                p_ipAddress = fst (getRequestMeta req),
                p_userAgent = snd (getRequestMeta req), p_metadata = None \<rparr>) (\<lambda>_.
     returnS \<lparr> res_status = 200, res_data = DeletedData (params_id req) \<rparr>))"

definition post_hcp_anonymize ::
  "platform \<Rightarrow> encryption_config \<Rightarrow> env \<Rightarrow> UUID \<Rightarrow> request \<Rightarrow> response action" where
  "post_hcp_anonymize lib cfg e userId req =
     bindS (anonymize lib cfg e (params_id req)) (\<lambda>_.
     bindS (createAuditEntry e
              \<lparr> p_userId = userId, p_action = DELETE, p_entityType = ''hcp'',
                p_entityId = Some (params_id req), p_previousState = None,
                p_newState = None,
                p_ipAddress = fst (getRequestMeta req),
                p_userAgent = snd (getRequestMeta req),
                p_metadata = Some (JObj [(''type'', JStr ''gdpr_anonymization'')]) \<rparr>) (\<lambda>_.
     returnS \<lparr> res_status = 200, res_data = AnonymizedData (params_id req) \<rparr>))"

fun consentTypeTag :: "ConsentType \<Rightarrow> string" where
  "consentTypeTag EMAIL = ''email''"
| "consentTypeTag PHONE = ''phone''"
| "consentTypeTag VISIT = ''visit''"
| "consentTypeTag REMOTE_DETAILING = ''remote_detailing''"
| "consentTypeTag DATA_PROCESSING = ''data_processing''"
| "consentTypeTag MARKETING = ''marketing''"

fun consentStatusTag :: "ConsentStatus \<Rightarrow> string" where
  "consentStatusTag GRANTED = ''granted''"
| "consentStatusTag REVOKED = ''revoked''"
| "consentStatusTag PENDING = ''pending''"
| "consentStatusTag EXPIRED = ''expired''"

definition post_hcp_consents ::
  "env \<Rightarrow> UUID \<Rightarrow> request \<Rightarrow> CreateConsentInput \<Rightarrow> response action" where
  "post_hcp_consents e userId req body =
     bindS (recordConsent e body userId) (\<lambda>consent.
     bindS (createAuditEntry e
              \<lparr> p_userId = userId, p_action = CONSENT_CHANGE, p_entityType = ''consent'',
                p_entityId = Some (cid consent), p_previousState = None,
                p_newState = Some (JObj [(''hcpId'', JStr (i_hcpId body)),
                                         (''type'', JStr (consentTypeTag (i_consentType body))),
                                         (''status'', JStr (consentStatusTag (i_status body)))]),
                p_ipAddress = fst (getRequestMeta req),
                p_userAgent = snd (getRequestMeta req), p_metadata = None \<rparr>) (\<lambda>_.
     returnS \<lparr> res_status = 201, res_data = ConsentData consent \<rparr>))"

text \<open>
  The requests that write to the database, and a run of them from a starting state. The
  last constructor stands for every other caller of \<^verbatim>\<open>createAuditEntry\<close> (report
  exports, interaction and task routes).
\<close>

datatype operation =
    PostHcps UUID request CreateHCPInput
  | GetHcp request
  | PatchHcp UUID request UpdateHCPInput
  | DeleteHcp UUID request
  | PostHcpAnonymize UUID request
  | PostHcpConsents UUID request CreateConsentInput
  | AuditOnly audit_params

fun dispatch :: "platform \<Rightarrow> encryption_config \<Rightarrow> env \<Rightarrow> operation \<Rightarrow> db \<Rightarrow> db" where
  "dispatch lib cfg e (PostHcps u req body) d = snd (post_hcps lib cfg e u req body d)"
| "dispatch lib cfg e (GetHcp req) d = snd (get_hcp lib cfg e req d)"
| "dispatch lib cfg e (PatchHcp u req body) d = snd (patch_hcp lib cfg e u req body d)"
| "dispatch lib cfg e (DeleteHcp u req) d = snd (delete_hcp e u req d)"
| "dispatch lib cfg e (PostHcpAnonymize u req) d = snd (post_hcp_anonymize lib cfg e u req d)"
| "dispatch lib cfg e (PostHcpConsents u req body) d = snd (post_hcp_consents e u req body d)"
| "dispatch lib cfg e (AuditOnly params) d = snd (createAuditEntry e params d)"

fun run :: "platform \<Rightarrow> encryption_config \<Rightarrow> (env \<times> operation) list \<Rightarrow> db \<Rightarrow> db" where
  "run lib cfg [] d = d"
| "run lib cfg ((e, op) # ops) d = run lib cfg ops (dispatch lib cfg e op d)"

section \<open>Consent gate: \<^verbatim>\<open>middleware/consent-check.ts\<close>\<close>

text \<open>
  What the middleware hands to \<^verbatim>\<open>next\<close>: nothing, or an error. The query
  \<^verbatim>\<open>db('consents').where({hcp_id, consent_type}).orderBy('created_at', 'desc').first()\<close>
  is an argument, so that the model says when it is run; it may throw (\<open>Inl\<close>), find no
  row (\<open>Inr None\<close>) or return the first row. \<open>latestConsent\<close> runs it on a database
  state; among rows of equal creation time it takes the one inserted last.
\<close>

datatype middleware_result = Next | NextError error

type_synonym consent_query = "UUID \<Rightarrow> ConsentType \<Rightarrow> error + consent_row option"

definition consentsFor :: "db \<Rightarrow> UUID \<Rightarrow> ConsentType \<Rightarrow> consent_row list" where
  "consentsFor d hcpId consentType =
     filter (\<lambda>c. hcp_id c = hcpId \<and> consent_type c = consentType) (consents d)"

definition latestConsent :: "db \<Rightarrow> consent_query" where
  "latestConsent d hcpId consentType =
     Inr (case rev (sort_key c_created_at (consentsFor d hcpId consentType)) of
            [] \<Rightarrow> None
          | c # _ \<Rightarrow> Some c)"

definition requireConsent ::
  "ConsentType \<Rightarrow> request \<Rightarrow> timestamp \<Rightarrow> consent_query \<Rightarrow> middleware_result" where
  "requireConsent consentType req today query =
     (case orElse (params_hcpId req) (body_hcpId req) of
        None \<Rightarrow> Next
      | Some hcpId \<Rightarrow>
          if hcpId = [] then Next
          else
            (case query hcpId consentType of
               Inl err \<Rightarrow> NextError err
             | Inr None \<Rightarrow> NextError (ConsentRequiredError hcpId consentType)
             | Inr (Some consent) \<Rightarrow>
                 if status consent \<noteq> GRANTED
                 then NextError (ConsentRequiredError hcpId consentType)
                 else
                   (case expires_at consent of
                      None \<Rightarrow> Next
                    | Some expiry \<Rightarrow>
                        if expiry < today
                        then NextError (ConsentRequiredError hcpId consentType)
                        else Next)))"

section \<open>Integrity check: \<^verbatim>\<open>ComplianceService.verifyDataIntegrity\<close>\<close>

record integrity_result =
  isConsistent :: bool
  issues :: "string list"

text \<open>\<^verbatim>\<open>Array.prototype.findIndex\<close>: the first index whose element passes, or \<open>-1\<close>.\<close>

fun findIndex :: "('a \<Rightarrow> bool) \<Rightarrow> 'a list \<Rightarrow> int" where
  "findIndex P [] = - 1"
| "findIndex P (x # xs) =
     (if P x then 0 else (let i = findIndex P xs in if i < 0 then - 1 else i + 1))"

text \<open>
  \<^verbatim>\<open>db('audit_log').where({entity_type, entity_id}).orderBy('created_at', 'asc')\<close>; rows
  of equal creation time stay in insertion order.
\<close>

definition auditEntriesFor :: "db \<Rightarrow> string \<Rightarrow> UUID \<Rightarrow> audit_row list" where
  "auditEntriesFor d entityType entityId =
     sort_key a_created_at
       (filter (\<lambda>a. entity_type a = entityType \<and> entity_id a = Some entityId) (audit_log d))"

definition checkEntries :: "audit_row list \<Rightarrow> integrity_result" where
  "checkEntries auditEntries =
     (let hasCreate = fold (\<lambda>entry h. if action entry = CREATE then True else h) auditEntries False;
          issues1 = (if length auditEntries > 0 \<and> \<not> hasCreate
                     then [''Missing CREATE audit entry for entity''] else []);
          deleteIndex = findIndex (\<lambda>e. action e = DELETE) auditEntries;
          issues2 =
            (if deleteIndex \<ge> 0 then
               (let postDeleteUpdates =
                      filter (\<lambda>e. action e = UPDATE) (drop (nat (deleteIndex + 1)) auditEntries)
                in if length postDeleteUpdates > 0
                   then issues1 @ [''Updates found after DELETE action'']
                   else issues1)
             else issues1)
      in \<lparr> isConsistent = (length issues2 = 0), issues = issues2 \<rparr>)"

definition verifyDataIntegrity :: "db \<Rightarrow> string \<Rightarrow> UUID \<Rightarrow> integrity_result" where
  "verifyDataIntegrity d entityType entityId = checkEntries (auditEntriesFor d entityType entityId)"

section \<open>Specification predicates and example states\<close>

text \<open>An \<^verbatim>\<open>update\<close> entry at a later position than a \<^verbatim>\<open>delete\<close> entry.\<close>

definition updateAfterDelete :: "audit_row list \<Rightarrow> bool" where
  "updateAfterDelete es \<longleftrightarrow>
     (\<exists>i j. i < j \<and> j < length es \<and> action (es ! i) = DELETE \<and> action (es ! j) = UPDATE)"

definition mkAudit :: "UUID \<Rightarrow> AuditAction \<Rightarrow> timestamp \<Rightarrow> audit_row" where
  "mkAudit i a t =
     \<lparr> aid = i, user_id = Some ''u1'', action = a, entity_type = ''hcp'',
       entity_id = Some ''h1'', previous_state = None, new_state = None,
       ip_address = ''10.0.0.1'', user_agent = ''ua'', a_metadata = JObj [],
       a_created_at = t \<rparr>"

text \<open>An audit log written out of order, with an update later than the delete.\<close>

definition db_tampered :: db where
  "db_tampered =
     \<lparr> hcps = [], consents = [],
       audit_log = [mkAudit ''a3'' UPDATE 30, mkAudit ''a1'' CREATE 10, mkAudit ''a2'' DELETE 20] \<rparr>"

text \<open>Example consent ledger and requests for the consent gate.\<close>

definition mkConsent :: "UUID \<Rightarrow> ConsentType \<Rightarrow> ConsentStatus \<Rightarrow> timestamp option \<Rightarrow> timestamp \<Rightarrow> consent_row" where
  "mkConsent i ct st ex t = \<lparr> cid = i, hcp_id = ''h1'', consent_type = ct, status = st,
     granted_at = (if st = GRANTED then Some t else None), revoked_at = (if st = REVOKED then Some t else None),
     expires_at = ex, source = None, evidence_url = None, recorded_by = ''u1'', consent_notes = None, c_created_at = t \<rparr>"

definition db_consents :: db where
  "db_consents = \<lparr> hcps = [], consents = [mkConsent ''c1'' EMAIL REVOKED None 10, mkConsent ''c2'' EMAIL GRANTED (Some 100) 20, mkConsent ''c3'' PHONE REVOKED None 30], audit_log = [] \<rparr>"

definition req_h1 :: request where
  "req_h1 = \<lparr> req_user = Some ''u1'', req_method = ''POST'', req_ip = Some ''10.0.0.1'', socket_remoteAddress = None,
     header_user_agent = Some ''ua'', params_id = ''h1'', params_hcpId = None, body_hcpId = Some ''h1'' \<rparr>"

definition req_none :: request where
  "req_none = \<lparr> req_user = Some ''u1'', req_method = ''POST'', req_ip = None, socket_remoteAddress = None,
     header_user_agent = None, params_id = ''h1'', params_hcpId = None, body_hcpId = None \<rparr>"

text \<open>The later state keeps every audit and consent row of the earlier one, in place.\<close>

definition appendOnly :: "db \<Rightarrow> db \<Rightarrow> bool" where
  "appendOnly d d' \<longleftrightarrow> prefix (audit_log d) (audit_log d') \<and> prefix (consents d) (consents d')"

text \<open>Example subject, inputs and environments.\<close>

definition row_ada :: hcp_row where
  "row_ada =
     \<lparr> hid = ''h1'', external_id = Some ''NPI-1'',
       first_name_encrypted = ''00ff|0a0b|adA'', first_name_hash = ''ada'' @ demo_key,
       last_name_encrypted = ''00ff|0a0b|ecalevoL'', last_name_hash = ''lovelace'' @ demo_key,
       email_encrypted = Some ''00ff|0a0b|moc.x@a'', email_hash = Some (''a@x.com'' @ demo_key),
       phone_encrypted = Some ''00ff|0a0b|LLAC-555'', phone_hash = Some (''555-CALL'' @ demo_key),
       specialty = ''oncology'', sub_specialty = None, influence_level = ''high'',
       primary_institution_id = None, territory_id = None, title = Some ''Dr.'',
       years_of_practice = Some 12, languages = [''en''], therapeutic_areas = [],
       metadata = JObj [], is_active = True, created_at = 10, updated_at = 10,
       deleted_at = None \<rparr>"

definition db_ada :: db where
  "db_ada = \<lparr> hcps = [row_ada], consents = [], audit_log = [] \<rparr>"

definition input_ada :: CreateHCPInput where
  "input_ada =
     \<lparr> c_externalId = Some ''NPI-1'', c_firstName = ''Ada'', c_lastName = ''Lovelace'',
       c_email = Some ''a@x.com'', c_phone = Some ''555-CALL'', c_specialty = ''oncology'',
       c_subSpecialty = None, c_influenceLevel = ''high'', c_primaryInstitutionId = None,
       c_territoryId = None, c_title = Some ''Dr.'', c_yearsOfPractice = Some 12,
       c_languages = Some [''en''], c_therapeuticAreas = None, c_metadata = None \<rparr>"

definition no_changes :: UpdateHCPInput where
  "no_changes =
     \<lparr> u_externalId = None, u_firstName = None, u_lastName = None, u_email = None,
       u_phone = None, u_specialty = None, u_subSpecialty = None, u_influenceLevel = None,
       u_primaryInstitutionId = None, u_territoryId = None, u_title = None,
       u_yearsOfPractice = None, u_languages = None, u_therapeuticAreas = None,
       u_metadata = None \<rparr>"

definition env_ok :: env where
  "env_ok =
     \<lparr> now = 99, uuid = ''h1'', audit_uuid = ''a9'', audit_insert_ok = True,
       constraints_ok = True \<rparr>"

definition env_audit_down :: env where
  "env_audit_down =
     \<lparr> now = 99, uuid = ''h1'', audit_uuid = ''a9'', audit_insert_ok = False,
       constraints_ok = True \<rparr>"

definition db_ada_deleted :: db where
  "db_ada_deleted =
     \<lparr> hcps = [row_ada\<lparr> is_active := False, deleted_at := Some 5 \<rparr>], consents = [], audit_log = [] \<rparr>"

definition to_cardiology :: UpdateHCPInput where
  "to_cardiology = no_changes\<lparr> u_specialty := Some ''cardiology'' \<rparr>"

definition db_empty :: db where
  "db_empty = \<lparr> hcps = [], consents = [], audit_log = [] \<rparr>"

text \<open>
  The outcome of a handler whose service call left the state \<open>d1\<close>: when the audit insert
  succeeds, the response \<open>resp\<close> and one audit entry added to \<open>d1\<close>; when it fails, the
  database error and \<open>d1\<close> as the service call left it.
\<close>

definition auditedOutcome ::
  "env \<Rightarrow> AuditAction \<Rightarrow> string \<Rightarrow> UUID \<Rightarrow> response \<Rightarrow> db \<Rightarrow> (error + response) \<times> db \<Rightarrow> bool" where
  "auditedOutcome e act etype eid resp d1 out =
     (if audit_insert_ok e then
        fst out = Inr resp \<and> hcps (snd out) = hcps d1 \<and> consents (snd out) = consents d1 \<and>
        (\<exists>entry. audit_log (snd out) = audit_log d1 @ [entry] \<and> action entry = act \<and>
                  entity_type entry = etype \<and> entity_id entry = Some eid)
      else out = (Inl DatabaseError, d1))"

definition consent_input :: CreateConsentInput where
  "consent_input =
     \<lparr> i_hcpId = ''h1'', i_consentType = EMAIL, i_status = GRANTED, i_expiresAt = None,
       i_source = Some ''form'', i_evidenceUrl = None, i_notes = None \<rparr>"

text \<open>Further example inputs.\<close>

definition clear_phone :: UpdateHCPInput where
  "clear_phone = no_changes\<lparr> u_phone := Some [] \<rparr>"

definition input_ada_lower :: CreateHCPInput where
  "input_ada_lower =
     input_ada\<lparr> c_externalId := Some ''NPI-2'', c_firstName := ''ADA'', c_lastName := ''LOVELACE'',
               c_email := Some ''A@X.COM'', c_phone := Some ''555-call'' \<rparr>"

definition env_second :: env where
  "env_second = env_ok\<lparr> uuid := ''h2'' \<rparr>"

text \<open>The row that \<open>update\<close> writes in place of \<open>r\<close>, in closed form.\<close>

definition updatedRow :: "platform \<Rightarrow> encryption_config \<Rightarrow> env \<Rightarrow> UpdateHCPInput \<Rightarrow> hcp_row \<Rightarrow> hcp_row" where
  "updatedRow lib cfg e input r =
     nonPIIUpdates input
       (r\<lparr> updated_at := now e,
           first_name_encrypted :=
             (case u_firstName input of None \<Rightarrow> first_name_encrypted r
              | Some v \<Rightarrow> AES_encrypt lib v (key cfg) (iv cfg)),
           first_name_hash :=
             (case u_firstName input of None \<Rightarrow> first_name_hash r
              | Some v \<Rightarrow> SHA256 lib (toLowerCase lib v @ key cfg)),
           last_name_encrypted :=
             (case u_lastName input of None \<Rightarrow> last_name_encrypted r
              | Some v \<Rightarrow> AES_encrypt lib v (key cfg) (iv cfg)),
           last_name_hash :=
             (case u_lastName input of None \<Rightarrow> last_name_hash r
              | Some v \<Rightarrow> SHA256 lib (toLowerCase lib v @ key cfg)),
           email_encrypted :=
             (case u_email input of None \<Rightarrow> email_encrypted r
              | Some v \<Rightarrow> if v = [] then None else Some (AES_encrypt lib v (key cfg) (iv cfg))),
           email_hash :=
             (case u_email input of None \<Rightarrow> email_hash r
              | Some v \<Rightarrow> if v = [] then None else Some (SHA256 lib (toLowerCase lib v @ key cfg))),
           phone_encrypted :=
             (case u_phone input of None \<Rightarrow> phone_encrypted r
              | Some v \<Rightarrow> if v = [] then None else Some (AES_encrypt lib v (key cfg) (iv cfg))),
           phone_hash :=
             (case u_phone input of None \<Rightarrow> phone_hash r
              | Some v \<Rightarrow> if v = [] then None else Some (SHA256 lib (v @ key cfg))) \<rparr>)"

text \<open>
  How \<open>update\<close> with \<open>input\<close> relates a stored row \<open>r\<close> to the row \<open>r'\<close> written in its
  place: column by column, the value kept or the value stored.
\<close>

definition updatedFrom ::
  "platform \<Rightarrow> encryption_config \<Rightarrow> env \<Rightarrow> UpdateHCPInput \<Rightarrow> hcp_row \<Rightarrow> hcp_row \<Rightarrow> bool" where
  "updatedFrom lib cfg e input r r' \<longleftrightarrow>
     hid r' = hid r \<and> (u_externalId input = None \<longrightarrow> external_id r' = external_id r)
              \<and> is_active r' = is_active r \<and> created_at r' = created_at r
              \<and> deleted_at r' = deleted_at r
              \<and> updated_at r' = now e
              \<and> first_name_encrypted r' =
                    (case u_firstName input of None \<Rightarrow> first_name_encrypted r
                     | Some v \<Rightarrow> AES_encrypt lib v (key cfg) (iv cfg))
              \<and> first_name_hash r' =
                    (case u_firstName input of None \<Rightarrow> first_name_hash r
                     | Some v \<Rightarrow> SHA256 lib (toLowerCase lib v @ key cfg))
              \<and> last_name_encrypted r' =
                    (case u_lastName input of None \<Rightarrow> last_name_encrypted r
                     | Some v \<Rightarrow> AES_encrypt lib v (key cfg) (iv cfg))
              \<and> last_name_hash r' =
                    (case u_lastName input of None \<Rightarrow> last_name_hash r
                     | Some v \<Rightarrow> SHA256 lib (toLowerCase lib v @ key cfg))
              \<and> email_encrypted r' =
                    (case u_email input of None \<Rightarrow> email_encrypted r
                     | Some v \<Rightarrow> if v = [] then None
                                 else Some (AES_encrypt lib v (key cfg) (iv cfg)))
              \<and> email_hash r' =
                    (case u_email input of None \<Rightarrow> email_hash r
                     | Some v \<Rightarrow> if v = [] then None
                                 else Some (SHA256 lib (toLowerCase lib v @ key cfg)))
              \<and> phone_encrypted r' =
                    (case u_phone input of None \<Rightarrow> phone_encrypted r
                     | Some v \<Rightarrow> if v = [] then None
                                 else Some (AES_encrypt lib v (key cfg) (iv cfg)))
              \<and> phone_hash r' =
                    (case u_phone input of None \<Rightarrow> phone_hash r
                     | Some v \<Rightarrow> if v = [] then None else Some (SHA256 lib (v @ key cfg)))
              \<and> specialty r' =
                    (case u_specialty input of None \<Rightarrow> specialty r | Some v \<Rightarrow> v)
              \<and> sub_specialty r' =
                    (case u_subSpecialty input of None \<Rightarrow> sub_specialty r | Some v \<Rightarrow> Some v)
              \<and> influence_level r' =
                    (case u_influenceLevel input of None \<Rightarrow> influence_level r | Some v \<Rightarrow> v)
              \<and> primary_institution_id r' =
                    (case u_primaryInstitutionId input of None \<Rightarrow> primary_institution_id r
                     | Some v \<Rightarrow> Some v)
              \<and> territory_id r' =
                    (case u_territoryId input of None \<Rightarrow> territory_id r | Some v \<Rightarrow> Some v)
              \<and> title r' = (case u_title input of None \<Rightarrow> title r | Some v \<Rightarrow> Some v)
              \<and> years_of_practice r' =
                    (case u_yearsOfPractice input of None \<Rightarrow> years_of_practice r
                     | Some v \<Rightarrow> Some v)
              \<and> languages r' =
                    (case u_languages input of None \<Rightarrow> languages r | Some v \<Rightarrow> v)
              \<and> therapeutic_areas r' =
                    (case u_therapeuticAreas input of None \<Rightarrow> therapeutic_areas r | Some v \<Rightarrow> v)
              \<and> metadata r' =
                    (case u_metadata input of None \<Rightarrow> metadata r | Some v \<Rightarrow> v)"

text \<open>
  The index tokens of a row for the attributes of \<open>input\<close>: the digest of the lower-cased
  first name, last name and email, and of the phone as given, each followed by the key.
\<close>

definition indexedAs :: "platform \<Rightarrow> encryption_config \<Rightarrow> CreateHCPInput \<Rightarrow> hcp_row \<Rightarrow> bool" where
  "indexedAs lib cfg input row \<longleftrightarrow>
     first_name_hash row = SHA256 lib (toLowerCase lib (c_firstName input) @ key cfg)
     \<and> last_name_hash row = SHA256 lib (toLowerCase lib (c_lastName input) @ key cfg)
     \<and> email_hash row =
           (case c_email input of None \<Rightarrow> None
            | Some v \<Rightarrow> if v = [] then None else Some (SHA256 lib (toLowerCase lib v @ key cfg)))
     \<and> phone_hash row =
           (case c_phone input of None \<Rightarrow> None
            | Some v \<Rightarrow> if v = [] then None else Some (SHA256 lib (v @ key cfg)))"

section \<open>Field vault: round trip and stability\<close>






section \<open>Integrity check\<close>

lemma fold_hasCreate:
  "fold (\<lambda>entry h. if action entry = CREATE then True else h) xs b
     = (b \<or> (\<exists>e\<in>set xs. action e = CREATE))"
  by (induction xs arbitrary: b) auto

lemma findIndex_ge: "- 1 \<le> findIndex P xs"
  by (induction xs) (auto simp: Let_def)

lemma findIndex_neg_iff: "findIndex P xs < 0 \<longleftrightarrow> (\<forall>x\<in>set xs. \<not> P x)"
  using findIndex_ge [of P] by (induction xs) (auto simp: Let_def)

lemma updateAfterDelete_Nil: "\<not> updateAfterDelete []"
  by (simp add: updateAfterDelete_def)

lemma updateAfterDelete_Cons:
  "updateAfterDelete (x # xs) \<longleftrightarrow>
     (action x = DELETE \<and> (\<exists>u\<in>set xs. action u = UPDATE)) \<or> updateAfterDelete xs"
proof
  assume "updateAfterDelete (x # xs)"
  then obtain i j where ij: "i < j" "j < Suc (length xs)"
      "action ((x # xs) ! i) = DELETE" "action ((x # xs) ! j) = UPDATE"
    by (auto simp: updateAfterDelete_def)
  from ij obtain j' where j': "j = Suc j'" by (cases j) auto
  show "(action x = DELETE \<and> (\<exists>u\<in>set xs. action u = UPDATE)) \<or> updateAfterDelete xs"
  proof (cases i)
    case 0
    with ij j' have "action x = DELETE" "action (xs ! j') = UPDATE" "j' < length xs" by auto
    then show ?thesis by (metis nth_mem)
  next
    case (Suc i')
    with ij j' have "i' < j'" "j' < length xs"
        "action (xs ! i') = DELETE" "action (xs ! j') = UPDATE"
      by auto
    then show ?thesis unfolding updateAfterDelete_def by blast
  qed
next
  assume "(action x = DELETE \<and> (\<exists>u\<in>set xs. action u = UPDATE)) \<or> updateAfterDelete xs"
  then show "updateAfterDelete (x # xs)"
  proof
    assume a: "action x = DELETE \<and> (\<exists>u\<in>set xs. action u = UPDATE)"
    then obtain k where "k < length xs" "action (xs ! k) = UPDATE"
      by (auto simp: in_set_conv_nth)
    with a have "0 < Suc k \<and> Suc k < length (x # xs) \<and> action ((x # xs) ! 0) = DELETE
        \<and> action ((x # xs) ! Suc k) = UPDATE" by simp
    then show ?thesis unfolding updateAfterDelete_def by blast
  next
    assume "updateAfterDelete xs"
    then obtain i j where "i < j" "j < length xs"
        "action (xs ! i) = DELETE" "action (xs ! j) = UPDATE"
      by (auto simp: updateAfterDelete_def)
    then have "Suc i < Suc j \<and> Suc j < length (x # xs) \<and> action ((x # xs) ! Suc i) = DELETE
        \<and> action ((x # xs) ! Suc j) = UPDATE" by simp
    then show ?thesis unfolding updateAfterDelete_def by blast
  qed
qed

text \<open>
  The source looks for updates behind the first delete only; that finds an update behind
  any delete.
\<close>

lemma postDelete_iff:
  "(0 \<le> findIndex (\<lambda>e. action e = DELETE) es \<and>
      filter (\<lambda>e. action e = UPDATE)
        (drop (nat (findIndex (\<lambda>e. action e = DELETE) es + 1)) es) \<noteq> [])
   \<longleftrightarrow> updateAfterDelete es"
proof (induction es)
  case Nil
  show ?case by (simp add: updateAfterDelete_Nil)
next
  case (Cons x xs)
  show ?case
  proof (cases "action x = DELETE")
    case True
    have "updateAfterDelete xs \<Longrightarrow> \<exists>u\<in>set xs. action u = UPDATE"
      by (auto simp: updateAfterDelete_def)
    with True show ?thesis
      by (auto simp: updateAfterDelete_Cons filter_empty_conv)
  next
    case False
    have ge: "- 1 \<le> findIndex (\<lambda>e. action e = DELETE) xs" by (rule findIndex_ge)
    have "nat (findIndex (\<lambda>e. action e = DELETE) xs + 1 + 1)
          = Suc (nat (findIndex (\<lambda>e. action e = DELETE) xs + 1))"
      using ge by simp
    with False Cons.IH ge show ?thesis
      by (auto simp: updateAfterDelete_Cons Let_def)
  qed
qed

lemma checkEntries_issues:
  "issues (checkEntries es) =
     (if es \<noteq> [] \<and> \<not> (\<exists>e\<in>set es. action e = CREATE)
      then [''Missing CREATE audit entry for entity''] else []) @
     (if updateAfterDelete es then [''Updates found after DELETE action''] else [])"
  using postDelete_iff [of es]
  by (auto simp: checkEntries_def Let_def fold_hasCreate)

lemma checkEntries_consistent:
  "isConsistent (checkEntries es) \<longleftrightarrow> issues (checkEntries es) = []"
  by (simp add: checkEntries_def Let_def)

lemma entries_tampered:
  "auditEntriesFor db_tampered ''hcp'' ''h1'' =
     [mkAudit ''a1'' CREATE 10, mkAudit ''a2'' DELETE 20, mkAudit ''a3'' UPDATE 30]"
  by (simp add: auditEntriesFor_def db_tampered_def mkAudit_def)

text \<open>
  C6. \<open>verifyDataIntegrity\<close> works on the audit entries of the pair, all of them, in
  ascending order of creation time. The result is consistent exactly when (a) a create
  entry exists if any entry exists and (b) no update entry comes after a delete entry;
  the issue list holds one message for each of the two checks that is violated.
\<close>

theorem verifyDataIntegrity_checks:
  "(let es = auditEntriesFor d entityType entityId;
        r = verifyDataIntegrity d entityType entityId
    in sorted (map a_created_at es)
     \<and> mset es = mset (filter (\<lambda>a. entity_type a = entityType \<and> entity_id a = Some entityId)
                          (audit_log d))
     \<and> (isConsistent r \<longleftrightarrow>
          (es \<noteq> [] \<longrightarrow> (\<exists>e\<in>set es. action e = CREATE)) \<and> \<not> updateAfterDelete es)
     \<and> issues r =
          (if es \<noteq> [] \<and> \<not> (\<exists>e\<in>set es. action e = CREATE)
           then [''Missing CREATE audit entry for entity''] else []) @
          (if updateAfterDelete es then [''Updates found after DELETE action''] else []))"
  unfolding Let_def verifyDataIntegrity_def
  apply (intro conjI)
     apply (simp add: auditEntriesFor_def)
    apply (simp add: auditEntriesFor_def)
   apply (simp add: checkEntries_consistent checkEntries_issues)
  apply (rule checkEntries_issues)
  done

theorem verifyDataIntegrity_checks_witness:
  "auditEntriesFor db_tampered ''hcp'' ''h1'' \<noteq> []
   \<and> (\<exists>e\<in>set (auditEntriesFor db_tampered ''hcp'' ''h1''). action e = CREATE)
   \<and> updateAfterDelete (auditEntriesFor db_tampered ''hcp'' ''h1'')
   \<and> \<not> isConsistent (verifyDataIntegrity db_tampered ''hcp'' ''h1'')
   \<and> issues (verifyDataIntegrity db_tampered ''hcp'' ''h1'')
       = [''Updates found after DELETE action'']"
proof -
  have e: "auditEntriesFor db_tampered ''hcp'' ''h1'' \<noteq> []"
    by (simp add: entries_tampered)
  have c: "\<exists>e\<in>set (auditEntriesFor db_tampered ''hcp'' ''h1''). action e = CREATE"
    by (simp add: entries_tampered mkAudit_def)
  have "updateAfterDelete (mkAudit ''a1'' CREATE 10 # [mkAudit ''a2'' DELETE 20, mkAudit ''a3'' UPDATE 30])"
    unfolding updateAfterDelete_Cons by (simp add: mkAudit_def)
  then have u: "updateAfterDelete (auditEntriesFor db_tampered ''hcp'' ''h1'')"
    by (simp add: entries_tampered)
  show ?thesis
    using verifyDataIntegrity_checks [of db_tampered "''hcp''" "''h1''"] e c u
    by (simp add: Let_def)
qed

section \<open>Consent gate\<close>

lemma sorted_le_last:
  "sorted (map f ys) \<Longrightarrow> y \<in> set ys \<Longrightarrow> f y \<le> f (last ys)"
  by (induction ys) (auto split: if_splits)

lemma sort_key_Nil_iff: "sort_key f xs = [] \<longleftrightarrow> xs = []"
  using length_sort [of f xs] by (metis length_0_conv)

lemma latestConsent_None:
  "latestConsent d h ct = Inr None \<longleftrightarrow> consentsFor d h ct = []"
  by (auto simp: latestConsent_def sort_key_Nil_iff split: list.splits)

lemma latestConsent_total: "\<exists>r. latestConsent d h ct = Inr r"
  by (simp add: latestConsent_def)

lemma latestConsent_Some:
  assumes "latestConsent d h ct = Inr (Some c)"
  shows "c \<in> set (consentsFor d h ct) \<and> (\<forall>c'\<in>set (consentsFor d h ct). c_created_at c' \<le> c_created_at c)"
proof -
  let ?s = "sort_key c_created_at (consentsFor d h ct)"
  from assms obtain rest where r: "rev ?s = c # rest"
    by (auto simp: latestConsent_def split: list.splits)
  then have ne: "?s \<noteq> []" by auto
  from r have "hd (rev ?s) = c" by simp
  with ne have l: "last ?s = c" by (simp add: hd_rev)
  have "c \<in> set ?s" using l ne last_in_set by metis
  moreover have "\<forall>c'\<in>set ?s. c_created_at c' \<le> c_created_at (last ?s)"
    using sorted_le_last [of c_created_at ?s] by simp
  ultimately show ?thesis using l by simp
qed

lemma requireConsent_Next_iff:
  assumes "orElse (params_hcpId req) (body_hcpId req) = Some hcpId" and "hcpId \<noteq> []"
  shows "requireConsent consentType req today query = Next \<longleftrightarrow>
            (\<exists>c. query hcpId consentType = Inr (Some c) \<and> status c = GRANTED
                 \<and> (\<forall>expiry. expires_at c = Some expiry \<longrightarrow> \<not> expiry < today))"
  using assms by (auto simp: requireConsent_def split: option.splits sum.splits)

lemma requireConsent_refusal:
  assumes "orElse (params_hcpId req) (body_hcpId req) = Some hcpId" and "hcpId \<noteq> []"
      and "query hcpId consentType = Inr r"
      and "requireConsent consentType req today query \<noteq> Next"
  shows "requireConsent consentType req today query
              = NextError (ConsentRequiredError hcpId consentType)"
  using assms by (auto simp: requireConsent_def split: option.splits if_splits)

text \<open>
  C4. For a request that names a subject, the consent gate lets the request through
  exactly when the query returns a record whose status is granted and whose expiry
  time, when present, is not before the current time; in every other case it answers
  with \<open>ConsentRequiredError\<close>. The record the query returns is one of the records of
  the (subject, channel) pair with the greatest creation time, and the query returns
  none exactly when the pair has no record.
\<close>

theorem requireConsent_gate:
  assumes "orElse (params_hcpId req) (body_hcpId req) = Some hcpId" and "hcpId \<noteq> []"
  shows "(requireConsent consentType req today (latestConsent d) = Next \<longleftrightarrow>
            (\<exists>c. latestConsent d hcpId consentType = Inr (Some c) \<and> status c = GRANTED
                 \<and> (\<forall>expiry. expires_at c = Some expiry \<longrightarrow> \<not> expiry < today)))
       \<and> (requireConsent consentType req today (latestConsent d) \<noteq> Next \<longrightarrow>
            requireConsent consentType req today (latestConsent d)
              = NextError (ConsentRequiredError hcpId consentType))
       \<and> (latestConsent d hcpId consentType = Inr None \<longleftrightarrow>
            \<not> (\<exists>c\<in>set (consents d). hcp_id c = hcpId \<and> consent_type c = consentType))
       \<and> (\<forall>c. latestConsent d hcpId consentType = Inr (Some c) \<longrightarrow>
              c \<in> set (consents d) \<and> hcp_id c = hcpId \<and> consent_type c = consentType
            \<and> (\<forall>c'\<in>set (consents d). hcp_id c' = hcpId \<and> consent_type c' = consentType
                  \<longrightarrow> c_created_at c' \<le> c_created_at c))"
proof -
  obtain r where r: "latestConsent d hcpId consentType = Inr r"
    using latestConsent_total by blast
  have a: "requireConsent consentType req today (latestConsent d) = Next \<longleftrightarrow>
            (\<exists>c. latestConsent d hcpId consentType = Inr (Some c) \<and> status c = GRANTED
                 \<and> (\<forall>expiry. expires_at c = Some expiry \<longrightarrow> \<not> expiry < today))"
    by (rule requireConsent_Next_iff [OF assms])
  have b: "requireConsent consentType req today (latestConsent d) \<noteq> Next \<longrightarrow>
            requireConsent consentType req today (latestConsent d)
              = NextError (ConsentRequiredError hcpId consentType)"
    using requireConsent_refusal [where query = "latestConsent d" and req = req and r = r
        and hcpId = hcpId and consentType = consentType and today = today] assms r
    by blast
  have c: "latestConsent d hcpId consentType = Inr None \<longleftrightarrow>
            \<not> (\<exists>c\<in>set (consents d). hcp_id c = hcpId \<and> consent_type c = consentType)"
    by (simp add: latestConsent_None consentsFor_def filter_empty_conv)
  have e: "\<forall>c. latestConsent d hcpId consentType = Inr (Some c) \<longrightarrow>
              c \<in> set (consents d) \<and> hcp_id c = hcpId \<and> consent_type c = consentType
            \<and> (\<forall>c'\<in>set (consents d). hcp_id c' = hcpId \<and> consent_type c' = consentType
                  \<longrightarrow> c_created_at c' \<le> c_created_at c)"
    using latestConsent_Some [of d hcpId consentType] by (auto simp: consentsFor_def)
  from a b c e show ?thesis by blast
qed

text \<open>
  C10. A request without a subject identifier (neither the route parameter nor the body
  field is set, or they are empty) is passed on to the next handler whatever the
  consent query would answer, also when it would throw: the query is not run.
\<close>

theorem requireConsent_no_subject:
  assumes "\<not> truthy (params_hcpId req)" and "\<not> truthy (body_hcpId req)"
  shows "requireConsent consentType req today query = Next"
  using assms by (cases "params_hcpId req"; cases "body_hcpId req")
    (auto simp: requireConsent_def orElse_def)


lemma latest_h1: "latestConsent db_consents ''h1'' EMAIL = Inr (Some (mkConsent ''c2'' EMAIL GRANTED (Some 100) 20))"
  by (simp add: latestConsent_def consentsFor_def db_consents_def mkConsent_def)

theorem requireConsent_gate_witness:
  "orElse (params_hcpId req_h1) (body_hcpId req_h1) = Some ''h1'' \<and> ''h1'' \<noteq> []
   \<and> requireConsent EMAIL req_h1 100 (latestConsent db_consents) = Next
   \<and> requireConsent EMAIL req_h1 101 (latestConsent db_consents) = NextError (ConsentRequiredError ''h1'' EMAIL)"
proof -
  have h: "orElse (params_hcpId req_h1) (body_hcpId req_h1) = Some ''h1''"
    by (simp add: orElse_def req_h1_def)
  have n: "''h1'' \<noteq> []" by simp
  have s: "status (mkConsent ''c2'' EMAIL GRANTED (Some 100) 20) = GRANTED"
     "expires_at (mkConsent ''c2'' EMAIL GRANTED (Some 100) 20) = Some 100"
    by (simp_all add: mkConsent_def)
  from requireConsent_gate [OF h n, of EMAIL 100 db_consents] s
  have 1: "requireConsent EMAIL req_h1 100 (latestConsent db_consents) = Next"
    by (simp add: latest_h1)
  from requireConsent_gate [OF h n, of EMAIL 101 db_consents] s
  have 2: "requireConsent EMAIL req_h1 101 (latestConsent db_consents) = NextError (ConsentRequiredError ''h1'' EMAIL)"
    by (simp add: latest_h1)
  from h n 1 2 show ?thesis by blast
qed

theorem requireConsent_no_subject_witness:
  "\<not> truthy (params_hcpId req_none) \<and> \<not> truthy (body_hcpId req_none)
   \<and> requireConsent EMAIL req_none 50 (\<lambda>h ct. Inl DatabaseError) = Next"
proof -
  have a: "\<not> truthy (params_hcpId req_none)" and b: "\<not> truthy (body_hcpId req_none)"
    by (simp_all add: req_none_def)
  from requireConsent_no_subject [OF a b] a b show ?thesis by blast
qed

section \<open>Append-only audit log and consent table\<close>

lemma appendOnly_refl: "appendOnly d d"
  by (simp add: appendOnly_def)

lemma appendOnly_trans: "appendOnly d d' \<Longrightarrow> appendOnly d' d'' \<Longrightarrow> appendOnly d d''"
  by (auto simp: appendOnly_def)

lemma appendOnly_hcps: "appendOnly d (d\<lparr> hcps := h \<rparr>)"
  by (simp add: appendOnly_def)

lemma appendOnly_bindS:
  assumes "\<And>d. appendOnly d (snd (m d))" and "\<And>v d. appendOnly d (snd (f v d))"
  shows "appendOnly d (snd (bindS m f d))"
proof (cases "m d")
  case (Pair r d')
  with assms(1) [of d] have 1: "appendOnly d d'" by simp
  show ?thesis
  proof (cases r)
    case (Inl e)
    with Pair 1 show ?thesis by (simp add: bindS_def)
  next
    case (Inr v)
    with Pair have "snd (bindS m f d) = snd (f v d')" by (simp add: bindS_def)
    with 1 assms(2) [of d' v] show ?thesis by (metis appendOnly_trans)
  qed
qed

lemma appendOnly_readS: "appendOnly d (snd (readS q d))"
  by (simp add: readS_def appendOnly_refl)

lemma appendOnly_returnS: "appendOnly d (snd (returnS v d))"
  by (simp add: returnS_def appendOnly_refl)

lemma appendOnly_update_where_id: "appendOnly d (update_where_id i f d)"
  by (simp add: update_where_id_def appendOnly_hcps)

lemma appendOnly_insert_hcps: "appendOnly d (snd (insert_hcps e record d))"
  by (simp add: insert_hcps_def appendOnly_refl appendOnly_hcps)

lemma appendOnly_then_read:
  assumes "appendOnly d (snd (m d))"
  shows "appendOnly d
           (snd (case m d of (Inl err, d') \<Rightarrow> (Inl err, d') | (Inr v, d') \<Rightarrow> (g d', d')))"
  using assms by (cases "m d") (auto split: sum.splits)

lemma appendOnly_create: "appendOnly d (snd (create lib cfg e input d))"
  by (simp add: create_def appendOnly_refl appendOnly_then_read appendOnly_insert_hcps
      split: sum.splits)

lemma appendOnly_update: "appendOnly d (snd (update lib cfg e i input d))"
  by (simp add: update_def Let_def appendOnly_refl appendOnly_update_where_id
      split: option.splits sum.splits)

lemma appendOnly_softDelete: "appendOnly d (snd (softDelete e i d))"
  by (simp add: softDelete_def appendOnly_refl appendOnly_update_where_id split: option.splits)

lemma appendOnly_anonymize: "appendOnly d (snd (anonymize lib cfg e i d))"
  by (simp add: anonymize_def appendOnly_refl appendOnly_update_where_id
      split: option.splits sum.splits)

lemma appendOnly_recordConsent: "appendOnly d (snd (recordConsent e input u d))"
  by (simp add: recordConsent_def Let_def appendOnly_def)

lemma appendOnly_createAuditEntry: "appendOnly d (snd (createAuditEntry e params d))"
  by (simp add: createAuditEntry_def appendOnly_def)

lemma appendOnly_auditDataAccess: "appendOnly d (auditDataAccess e t req d)"
  by (simp add: auditDataAccess_def appendOnly_refl appendOnly_createAuditEntry split: option.splits)

lemma appendOnly_dispatch: "appendOnly d (dispatch lib cfg e op d)"
proof (cases op)
  case (PostHcps u req body)
  then show ?thesis
    by (simp add: post_hcps_def appendOnly_bindS appendOnly_create appendOnly_createAuditEntry
        appendOnly_returnS)
next
  case (GetHcp req)
  have "appendOnly (auditDataAccess e ''hcp'' req d) (dispatch lib cfg e op d)"
    unfolding GetHcp dispatch.simps get_hcp_def Let_def
    by (intro appendOnly_bindS appendOnly_readS appendOnly_returnS)
  with appendOnly_auditDataAccess show ?thesis by (rule appendOnly_trans)
next
  case (PatchHcp u req body)
  then show ?thesis
    by (simp add: patch_hcp_def appendOnly_bindS appendOnly_update appendOnly_createAuditEntry
        appendOnly_returnS appendOnly_readS)
next
  case (DeleteHcp u req)
  then show ?thesis
    by (simp add: delete_hcp_def appendOnly_bindS appendOnly_softDelete appendOnly_createAuditEntry
        appendOnly_returnS)
next
  case (PostHcpAnonymize u req)
  then show ?thesis
    by (simp add: post_hcp_anonymize_def appendOnly_bindS appendOnly_anonymize
        appendOnly_createAuditEntry appendOnly_returnS)
next
  case (PostHcpConsents u req body)
  then show ?thesis
    by (simp add: post_hcp_consents_def appendOnly_bindS appendOnly_recordConsent
        appendOnly_createAuditEntry appendOnly_returnS)
next
  case (AuditOnly params)
  then show ?thesis by (simp add: appendOnly_createAuditEntry)
qed

text \<open>
  C5. Whatever requests are served, in whatever order and with whatever outcome, the
  audit log and the consent table of the state reached begin with the rows of the
  starting state, unchanged and in the same order: every write to the two tables adds
  rows at the end and none updates or deletes a row.
\<close>

theorem ledgers_append_only:
  "prefix (audit_log d) (audit_log (run lib cfg ops d))
   \<and> prefix (consents d) (consents (run lib cfg ops d))"
proof -
  have "appendOnly d (run lib cfg ops d)"
  proof (induction ops arbitrary: d)
    case Nil
    show ?case by (simp add: appendOnly_refl)
  next
    case (Cons a ops)
    obtain e op where a: "a = (e, op)" by (cases a)
    have "appendOnly d (dispatch lib cfg e op d)" by (rule appendOnly_dispatch)
    moreover have "appendOnly (dispatch lib cfg e op d) (run lib cfg ops (dispatch lib cfg e op d))"
      by (rule Cons.IH)
    ultimately show ?case unfolding a by (simp add: appendOnly_trans)
  qed
  then show ?thesis by (simp add: appendOnly_def)
qed

section \<open>Anonymization\<close>

lemmas demo_defs = demo_lib_def demo_cfg_def demo_key_def demo_encrypt_def
  demo_decrypt_def demo_lowerChar_def env_ok_def env_second_def
  env_audit_down_def req_h1_def db_ada_def row_ada_def db_empty_def db_ada_deleted_def

lemmas service_defs = bindS_def readS_def returnS_def bindE_def createAuditEntry_def
  getRequestMeta_def orElse_def orUnknown_def update_where_id_def first_any_def first_live_def
  encryptPII_def decryptPII_def hashForIndex_def insert_hcps_def

lemma encryptPII_ok:
  "key cfg \<noteq> [] \<Longrightarrow> encryptPII lib cfg p = Inr (AES_encrypt lib p (key cfg) (iv cfg))"
  by (simp add: encryptPII_def)

lemma first_any_None: "first_any d i = None \<longleftrightarrow> \<not> (\<exists>r\<in>set (hcps d). hid r = i)"
  by (auto simp: first_any_def find_None_iff)

lemma anonymize_NotFound:
  "\<not> (\<exists>r\<in>set (hcps d). hid r = i) \<Longrightarrow>
     anonymize lib cfg e i d = (Inl (NotFoundError ''HCP'' i), d)"
  using first_any_None [of d i] by (simp add: anonymize_def)

lemma anonymize_ok:
  assumes "\<exists>r\<in>set (hcps d). hid r = i" and "key cfg \<noteq> []"
  shows "anonymize lib cfg e i d =
     (Inr (),
      d\<lparr> hcps := map (\<lambda>r. if hid r = i then
               r\<lparr> first_name_encrypted := AES_encrypt lib ''[ANONYMIZED]'' (key cfg) (iv cfg),
                  first_name_hash := SHA256 lib (''[ANONYMIZED]'' @ key cfg),
                  last_name_encrypted := AES_encrypt lib ''[ANONYMIZED]'' (key cfg) (iv cfg),
                  last_name_hash := SHA256 lib (''[ANONYMIZED]'' @ key cfg),
                  email_encrypted := None, email_hash := None,
                  phone_encrypted := None, phone_hash := None,
                  external_id := None, is_active := False,
                  deleted_at := Some (now e),
                  metadata := JObj [(''anonymized'', JBool True),
                                    (''anonymized_at'', JNum (int (now e)))] \<rparr>
             else r) (hcps d) \<rparr>)"
proof -
  from assms(1) obtain existing where "first_any d i = Some existing"
    using first_any_None [of d i] by (cases "first_any d i") auto
  then show ?thesis
    using assms(2)
    by (simp add: anonymize_def encryptPII_ok bindE_def hashForIndex_def update_where_id_def)
qed

text \<open>
  C2 (amended). On an identifier that no row has, the anonymize route fails with
  \<open>NotFoundError\<close> and changes nothing. On an existing row (soft-deleted or not), with
  key material configured and the audit insert succeeding, it replaces the first-name
  and last-name encrypted values and index tokens with the encryption and the digest of
  the sentinel \<^verbatim>\<open>[ANONYMIZED]\<close>, sets the email and phone encrypted values and tokens
  to null, clears the external identifier, sets \<open>is_active\<close> to false, replaces the
  metadata by the anonymized flag and time, sets the deletion time to the current time
  whether or not one was set, and then appends one delete audit entry with metadata
  \<^verbatim>\<open>{type: gdpr_anonymization}\<close>.
\<close>

theorem anonymize_route_effect:
  "(\<not> (\<exists>r\<in>set (hcps d). hid r = params_id req) \<longrightarrow>
      post_hcp_anonymize lib cfg e userId req d = (Inl (NotFoundError ''HCP'' (params_id req)), d))
   \<and> ((\<exists>r\<in>set (hcps d). hid r = params_id req) \<and> key cfg \<noteq> [] \<and> audit_insert_ok e \<longrightarrow>
      post_hcp_anonymize lib cfg e userId req d =
        (Inr \<lparr> res_status = 200, res_data = AnonymizedData (params_id req) \<rparr>,
         d\<lparr> hcps := map (\<lambda>r. if hid r = params_id req then
               r\<lparr> first_name_encrypted := AES_encrypt lib ''[ANONYMIZED]'' (key cfg) (iv cfg),
                  first_name_hash := SHA256 lib (''[ANONYMIZED]'' @ key cfg),
                  last_name_encrypted := AES_encrypt lib ''[ANONYMIZED]'' (key cfg) (iv cfg),
                  last_name_hash := SHA256 lib (''[ANONYMIZED]'' @ key cfg),
                  email_encrypted := None, email_hash := None,
                  phone_encrypted := None, phone_hash := None,
                  external_id := None, is_active := False,
                  deleted_at := Some (now e),
                  metadata := JObj [(''anonymized'', JBool True),
                                    (''anonymized_at'', JNum (int (now e)))] \<rparr>
             else r) (hcps d),
            audit_log := audit_log d @
              [\<lparr> aid = audit_uuid e, user_id = Some userId, action = DELETE,
                 entity_type = ''hcp'', entity_id = Some (params_id req),
                 previous_state = None, new_state = None,
                 ip_address = fst (getRequestMeta req), user_agent = snd (getRequestMeta req),
                 a_metadata = JObj [(''type'', JStr ''gdpr_anonymization'')],
                 a_created_at = now e \<rparr>] \<rparr>))"
  using anonymize_ok [of d "params_id req" cfg lib e]
    anonymize_NotFound [of d "params_id req" lib cfg e]
  by (simp add: post_hcp_anonymize_def bindS_def createAuditEntry_def returnS_def)

lemma first_live_map_deleted:
  "(\<And>r. hid r = i \<Longrightarrow> deleted_at (f r) \<noteq> None) \<Longrightarrow> (\<And>r. hid (f r) = hid r)
   \<Longrightarrow> find (\<lambda>r. hid r = i \<and> deleted_at r = None) (map (\<lambda>r. if hid r = i then f r else r) xs) = None"
  by (induction xs) auto

lemma map_hid_update:
  "(\<And>r. hid (f r) = hid r) \<Longrightarrow> map hid (map (\<lambda>r. if hid r = i then f r else r) xs) = map hid xs"
  by (induction xs) auto

lemma updated_row_origin:
  "r \<in> set (map (\<lambda>r. if hid r = i then f r else r) xs) \<Longrightarrow> hid r = i \<Longrightarrow>
   (\<And>r. hid (f r) = hid r) \<Longrightarrow> \<exists>r0\<in>set xs. r = f r0"
  by (induction xs) (auto split: if_splits)

text \<open>
  C3 (amended). After a successful \<open>anonymize\<close> the subject's row is still in the table,
  but \<open>getById\<close> fails with \<open>NotFoundError\<close>, since the deletion time is now set; the
  row is inactive, its name values and tokens are those of the sentinel, its email and
  phone values and tokens are null, and the consent and audit rows are as before.
\<close>

theorem anonymize_then_getById:
  assumes "anonymize lib cfg e i d = (Inr (), d')"
  shows "getById lib cfg i d' = Inl (NotFoundError ''HCP'' i)
       \<and> (\<exists>r\<in>set (hcps d'). hid r = i)
       \<and> map hid (hcps d') = map hid (hcps d)
       \<and> (\<forall>r\<in>set (hcps d'). hid r = i \<longrightarrow>
             \<not> is_active r \<and> deleted_at r = Some (now e) \<and> external_id r = None
           \<and> encryptPII lib cfg ''[ANONYMIZED]'' = Inr (first_name_encrypted r)
           \<and> encryptPII lib cfg ''[ANONYMIZED]'' = Inr (last_name_encrypted r)
           \<and> first_name_hash r = hashForIndex lib cfg ''[ANONYMIZED]''
           \<and> last_name_hash r = hashForIndex lib cfg ''[ANONYMIZED]''
           \<and> email_encrypted r = None \<and> email_hash r = None
           \<and> phone_encrypted r = None \<and> phone_hash r = None)
       \<and> consents d' = consents d
       \<and> audit_log d' = audit_log d"
proof -
  from assms have ex: "\<exists>r\<in>set (hcps d). hid r = i"
    using anonymize_NotFound [of d i lib cfg e] by auto
  from assms have k: "key cfg \<noteq> []"
    by (auto simp: anonymize_def encryptPII_def bindE_def split: option.splits if_splits)
  define f where "f = (\<lambda>r::hcp_row.
               r\<lparr> first_name_encrypted := AES_encrypt lib ''[ANONYMIZED]'' (key cfg) (iv cfg),
                  first_name_hash := SHA256 lib (''[ANONYMIZED]'' @ key cfg),
                  last_name_encrypted := AES_encrypt lib ''[ANONYMIZED]'' (key cfg) (iv cfg),
                  last_name_hash := SHA256 lib (''[ANONYMIZED]'' @ key cfg),
                  email_encrypted := None, email_hash := None,
                  phone_encrypted := None, phone_hash := None,
                  external_id := None, is_active := False,
                  deleted_at := Some (now e),
                  metadata := JObj [(''anonymized'', JBool True),
                                    (''anonymized_at'', JNum (int (now e)))] \<rparr>)"
  have d': "d' = d\<lparr> hcps := map (\<lambda>r. if hid r = i then f r else r) (hcps d) \<rparr>"
    using assms anonymize_ok [OF ex k, of lib e] unfolding f_def by simp
  have fh: "\<And>r. hid (f r) = hid r" by (simp add: f_def)
  have fd: "\<And>r. deleted_at (f r) \<noteq> None" by (simp add: f_def)
  have fp: "\<And>r. \<not> is_active (f r) \<and> deleted_at (f r) = Some (now e) \<and> external_id (f r) = None
           \<and> encryptPII lib cfg ''[ANONYMIZED]'' = Inr (first_name_encrypted (f r))
           \<and> encryptPII lib cfg ''[ANONYMIZED]'' = Inr (last_name_encrypted (f r))
           \<and> first_name_hash (f r) = hashForIndex lib cfg ''[ANONYMIZED]''
           \<and> last_name_hash (f r) = hashForIndex lib cfg ''[ANONYMIZED]''
           \<and> email_encrypted (f r) = None \<and> email_hash (f r) = None
           \<and> phone_encrypted (f r) = None \<and> phone_hash (f r) = None"
    using k by (simp add: f_def encryptPII_def hashForIndex_def)
  have hs: "hcps d' = map (\<lambda>r. if hid r = i then f r else r) (hcps d)"
    unfolding d' by simp
  have 1: "getById lib cfg i d' = Inl (NotFoundError ''HCP'' i)"
    unfolding getById_def first_live_def hs
    using first_live_map_deleted [of i f "hcps d"] fh fd by simp
  have 3: "map hid (hcps d') = map hid (hcps d)"
    unfolding hs using fh by (rule map_hid_update)
  from ex have "i \<in> set (map hid (hcps d))" by auto
  with 3 have "i \<in> set (map hid (hcps d'))" by simp
  then have 2: "\<exists>r\<in>set (hcps d'). hid r = i" by auto
  have 4: "\<forall>r\<in>set (hcps d'). hid r = i \<longrightarrow>
             \<not> is_active r \<and> deleted_at r = Some (now e) \<and> external_id r = None
           \<and> encryptPII lib cfg ''[ANONYMIZED]'' = Inr (first_name_encrypted r)
           \<and> encryptPII lib cfg ''[ANONYMIZED]'' = Inr (last_name_encrypted r)
           \<and> first_name_hash r = hashForIndex lib cfg ''[ANONYMIZED]''
           \<and> last_name_hash r = hashForIndex lib cfg ''[ANONYMIZED]''
           \<and> email_encrypted r = None \<and> email_hash r = None
           \<and> phone_encrypted r = None \<and> phone_hash r = None"
  proof (intro ballI impI)
    fix r assume "r \<in> set (hcps d')" "hid r = i"
    then obtain r0 where r: "r = f r0"
      unfolding hs using updated_row_origin [of r i f "hcps d"] fh by blast
    show "\<not> is_active r \<and> deleted_at r = Some (now e) \<and> external_id r = None
           \<and> encryptPII lib cfg ''[ANONYMIZED]'' = Inr (first_name_encrypted r)
           \<and> encryptPII lib cfg ''[ANONYMIZED]'' = Inr (last_name_encrypted r)
           \<and> first_name_hash r = hashForIndex lib cfg ''[ANONYMIZED]''
           \<and> last_name_hash r = hashForIndex lib cfg ''[ANONYMIZED]''
           \<and> email_encrypted r = None \<and> email_hash r = None
           \<and> phone_encrypted r = None \<and> phone_hash r = None"
      unfolding r by (rule fp)
  qed
  have 5: "consents d' = consents d" "audit_log d' = audit_log d"
    unfolding d' by simp_all
  from 1 2 3 4 5 show ?thesis by blast
qed


theorem anonymize_route_effect_witness:
  "(\<exists>r\<in>set (hcps db_ada). hid r = params_id req_h1) \<and> key demo_cfg \<noteq> [] \<and> audit_insert_ok env_ok
   \<and> \<not> (\<exists>r\<in>set (hcps db_empty). hid r = params_id req_h1)
   \<and> post_hcp_anonymize demo_lib demo_cfg env_ok ''u1'' req_h1 db_empty
        = (Inl (NotFoundError ''HCP'' ''h1''), db_empty)
   \<and> fst (post_hcp_anonymize demo_lib demo_cfg env_ok ''u1'' req_h1 db_ada)
        = Inr \<lparr> res_status = 200, res_data = AnonymizedData ''h1'' \<rparr>
   \<and> map first_name_encrypted (hcps (snd (post_hcp_anonymize demo_lib demo_cfg env_ok ''u1'' req_h1 db_ada)))
        = [''00ff|0a0b|]DEZIMYNONA['']
   \<and> map action (audit_log (snd (post_hcp_anonymize demo_lib demo_cfg env_ok ''u1'' req_h1 db_ada)))
        = [DELETE]"
  using anonymize_route_effect [of db_ada req_h1 demo_lib demo_cfg env_ok "''u1''"]
    anonymize_route_effect [of db_empty req_h1 demo_lib demo_cfg env_ok "''u1''"]
  by (simp add: demo_defs)

text \<open>
  C2 as stated fails: after anonymization the email value is null, not the
  encryption of the sentinel, and a deletion time that was set is overwritten.
\<close>

theorem anonymize_sentinel_counterexample:
  "fst (post_hcp_anonymize demo_lib demo_cfg env_ok ''u1'' req_h1 db_ada_deleted)
        = Inr \<lparr> res_status = 200, res_data = AnonymizedData ''h1'' \<rparr>
   \<and> encryptPII demo_lib demo_cfg ''[ANONYMIZED]'' = Inr ''00ff|0a0b|]DEZIMYNONA[''
   \<and> map email_encrypted (hcps db_ada_deleted) = [Some ''00ff|0a0b|moc.x@a'']
   \<and> map email_encrypted (hcps (snd (post_hcp_anonymize demo_lib demo_cfg env_ok ''u1'' req_h1 db_ada_deleted)))
        = [None]
   \<and> map phone_hash (hcps (snd (post_hcp_anonymize demo_lib demo_cfg env_ok ''u1'' req_h1 db_ada_deleted)))
        = [None]
   \<and> map deleted_at (hcps db_ada_deleted) = [Some 5]
   \<and> map deleted_at (hcps (snd (post_hcp_anonymize demo_lib demo_cfg env_ok ''u1'' req_h1 db_ada_deleted)))
        = [Some 99]"
  by (simp add: post_hcp_anonymize_def anonymize_def service_defs demo_defs)

theorem anonymize_then_getById_witness:
  "fst (anonymize demo_lib demo_cfg env_ok ''h1'' db_ada) = Inr ()
   \<and> getById demo_lib demo_cfg ''h1'' (snd (anonymize demo_lib demo_cfg env_ok ''h1'' db_ada))
        = Inl (NotFoundError ''HCP'' ''h1'')
   \<and> map hid (hcps (snd (anonymize demo_lib demo_cfg env_ok ''h1'' db_ada))) = [''h1'']
   \<and> map is_active (hcps (snd (anonymize demo_lib demo_cfg env_ok ''h1'' db_ada))) = [False]
   \<and> map email_encrypted (hcps (snd (anonymize demo_lib demo_cfg env_ok ''h1'' db_ada))) = [None]
   \<and> map deleted_at (hcps (snd (anonymize demo_lib demo_cfg env_ok ''h1'' db_ada))) = [Some 99]"
proof -
  have f: "fst (anonymize demo_lib demo_cfg env_ok ''h1'' db_ada) = Inr ()"
    by (simp add: anonymize_def service_defs demo_defs)
  then have h: "anonymize demo_lib demo_cfg env_ok ''h1'' db_ada
             = (Inr (), snd (anonymize demo_lib demo_cfg env_ok ''h1'' db_ada))"
    by (metis prod.collapse)
  have m: "map hid (hcps db_ada) = [''h1'']" and n: "now env_ok = 99"
    by (simp_all add: demo_defs)
  note T = anonymize_then_getById [OF h]
  from T m obtain r where
    r: "hcps (snd (anonymize demo_lib demo_cfg env_ok ''h1'' db_ada)) = [r]" "hid r = ''h1''"
    by (auto simp: map_eq_Cons_conv)
  with T n have "\<not> is_active r \<and> email_encrypted r = None \<and> deleted_at r = Some 99"
    by simp
  with T f m r show ?thesis by simp
qed

text \<open>
  C3 as stated fails: \<open>getById\<close> returned the subject before the anonymize
  request and fails after it.
\<close>

theorem getById_after_anonymize_counterexample:
  "fst (post_hcp_anonymize demo_lib demo_cfg env_ok ''u1'' req_h1 db_ada)
        = Inr \<lparr> res_status = 200, res_data = AnonymizedData ''h1'' \<rparr>
   \<and> map r_firstName (case getById demo_lib demo_cfg ''h1'' db_ada of Inl _ \<Rightarrow> [] | Inr hcp \<Rightarrow> [hcp]) = [''Ada'']
   \<and> getById demo_lib demo_cfg ''h1'' (snd (post_hcp_anonymize demo_lib demo_cfg env_ok ''u1'' req_h1 db_ada))
        = Inl (NotFoundError ''HCP'' ''h1'')"
  by (simp add: post_hcp_anonymize_def anonymize_def getById_def decryptHCPRow_def
      decryptIfTruthy_def service_defs demo_defs)

section \<open>Mutations and their audit entries\<close>

lemma audited_handler:
  assumes "svc d = (Inr v, d1)"
      and "p_action (P v) = act" "p_entityType (P v) = etype" "p_entityId (P v) = Some eid"
  shows "auditedOutcome e act etype eid (R v) d1
           (bindS svc (\<lambda>v. bindS (createAuditEntry e (P v)) (\<lambda>_. returnS (R v))) d)"
  using assms by (simp add: auditedOutcome_def bindS_def createAuditEntry_def returnS_def)

text \<open>
  C1 (amended). Each mutating route commits the business mutation first and appends the
  audit entry afterwards, as a separate write. When the audit insert succeeds, the
  route answers with success and the state is the one the mutation left plus exactly
  one audit entry for the mutated entity. When the audit insert fails, the route
  reports the error, never success, the audit log is unchanged, and the mutation
  stays committed: it is not rolled back.
\<close>

theorem mutation_committed_before_audit:
  "(create lib cfg e body d = (Inr hcp, d_create) \<longrightarrow>
      auditedOutcome e CREATE ''hcp'' (r_id hcp) \<lparr> res_status = 201, res_data = HcpData hcp \<rparr> d_create
        (post_hcps lib cfg e userId req body d))
   \<and> (getById lib cfg (params_id req) d = Inr previousHcp \<and>
      update lib cfg e (params_id req) changes d = (Inr updatedHcp, d_update) \<longrightarrow>
      auditedOutcome e UPDATE ''hcp'' (params_id req)
        \<lparr> res_status = 200, res_data = HcpData updatedHcp \<rparr> d_update
        (patch_hcp lib cfg e userId req changes d))
   \<and> (softDelete e (params_id req) d = (Inr (), d_delete) \<longrightarrow>
      auditedOutcome e DELETE ''hcp'' (params_id req)
        \<lparr> res_status = 200, res_data = DeletedData (params_id req) \<rparr> d_delete
        (delete_hcp e userId req d))
   \<and> (anonymize lib cfg e (params_id req) d = (Inr (), d_anon) \<longrightarrow>
      auditedOutcome e DELETE ''hcp'' (params_id req)
        \<lparr> res_status = 200, res_data = AnonymizedData (params_id req) \<rparr> d_anon
        (post_hcp_anonymize lib cfg e userId req d))
   \<and> (recordConsent e input userId d = (Inr consent, d_consent) \<longrightarrow>
      auditedOutcome e CONSENT_CHANGE ''consent'' (cid consent)
        \<lparr> res_status = 201, res_data = ConsentData consent \<rparr> d_consent
        (post_hcp_consents e userId req input d))"
proof (intro conjI impI)
  assume "create lib cfg e body d = (Inr hcp, d_create)"
  then show "auditedOutcome e CREATE ''hcp'' (r_id hcp) \<lparr> res_status = 201, res_data = HcpData hcp \<rparr> d_create
        (post_hcps lib cfg e userId req body d)"
    unfolding post_hcps_def by (rule audited_handler) simp_all
next
  assume a: "getById lib cfg (params_id req) d = Inr previousHcp \<and>
      update lib cfg e (params_id req) changes d = (Inr updatedHcp, d_update)"
  then have r: "readS (getById lib cfg (params_id req)) d = (Inr previousHcp, d)"
    by (simp add: readS_def)
  from a have u: "update lib cfg e (params_id req) changes d = (Inr updatedHcp, d_update)" by simp
  have p: "patch_hcp lib cfg e userId req changes d =
      bindS (update lib cfg e (params_id req) changes) (\<lambda>updatedHcp.
      bindS (createAuditEntry e
              \<lparr> p_userId = userId, p_action = UPDATE, p_entityType = ''hcp'',
                p_entityId = Some (params_id req),
                p_previousState = Some (classification previousHcp),
                p_newState = Some (classification updatedHcp),
                p_ipAddress = fst (getRequestMeta req),
                p_userAgent = snd (getRequestMeta req), p_metadata = None \<rparr>) (\<lambda>_.
      returnS \<lparr> res_status = 200, res_data = HcpData updatedHcp \<rparr>)) d"
    unfolding patch_hcp_def using r by (simp add: bindS_def)
  show "auditedOutcome e UPDATE ''hcp'' (params_id req)
        \<lparr> res_status = 200, res_data = HcpData updatedHcp \<rparr> d_update
        (patch_hcp lib cfg e userId req changes d)"
    unfolding p using u by (rule audited_handler) simp_all
next
  assume "softDelete e (params_id req) d = (Inr (), d_delete)"
  then show "auditedOutcome e DELETE ''hcp'' (params_id req)
        \<lparr> res_status = 200, res_data = DeletedData (params_id req) \<rparr> d_delete
        (delete_hcp e userId req d)"
    unfolding delete_hcp_def by (rule audited_handler) simp_all
next
  assume "anonymize lib cfg e (params_id req) d = (Inr (), d_anon)"
  then show "auditedOutcome e DELETE ''hcp'' (params_id req)
        \<lparr> res_status = 200, res_data = AnonymizedData (params_id req) \<rparr> d_anon
        (post_hcp_anonymize lib cfg e userId req d)"
    unfolding post_hcp_anonymize_def by (rule audited_handler) simp_all
next
  assume "recordConsent e input userId d = (Inr consent, d_consent)"
  then show "auditedOutcome e CONSENT_CHANGE ''consent'' (cid consent)
        \<lparr> res_status = 201, res_data = ConsentData consent \<rparr> d_consent
        (post_hcp_consents e userId req input d)"
    unfolding post_hcp_consents_def by (rule audited_handler) simp_all
qed

text \<open>
  C1 as stated fails: with the audit insert failing, the update route reports
  the error, yet the subject's specialty has changed and no audit entry exists.
\<close>

theorem audit_failure_counterexample:
  "map specialty (hcps db_ada) = [''oncology''] \<and> audit_log db_ada = []
   \<and> fst (patch_hcp demo_lib demo_cfg env_audit_down ''u1'' req_h1 to_cardiology db_ada)
        = Inl DatabaseError
   \<and> map specialty (hcps (snd (patch_hcp demo_lib demo_cfg env_audit_down ''u1'' req_h1 to_cardiology db_ada)))
        = [''cardiology'']
   \<and> audit_log (snd (patch_hcp demo_lib demo_cfg env_audit_down ''u1'' req_h1 to_cardiology db_ada)) = []"
  by (simp add: patch_hcp_def update_def buildUpdates_def nonPIIUpdates_def setIfDefined_def
      to_cardiology_def no_changes_def getById_def decryptHCPRow_def decryptIfTruthy_def
      service_defs demo_defs Let_def)


theorem mutation_committed_before_audit_witness:
  "post_hcps demo_lib demo_cfg env_audit_down ''u1'' req_h1 input_ada db_empty
     = (Inl DatabaseError, snd (create demo_lib demo_cfg env_audit_down input_ada db_empty))
   \<and> patch_hcp demo_lib demo_cfg env_audit_down ''u1'' req_h1 to_cardiology db_ada
     = (Inl DatabaseError, snd (update demo_lib demo_cfg env_audit_down ''h1'' to_cardiology db_ada))
   \<and> delete_hcp env_audit_down ''u1'' req_h1 db_ada
     = (Inl DatabaseError, snd (softDelete env_audit_down ''h1'' db_ada))
   \<and> post_hcp_anonymize demo_lib demo_cfg env_audit_down ''u1'' req_h1 db_ada
     = (Inl DatabaseError, snd (anonymize demo_lib demo_cfg env_audit_down ''h1'' db_ada))
   \<and> post_hcp_consents env_audit_down ''u1'' req_h1 consent_input db_ada
     = (Inl DatabaseError, snd (recordConsent env_audit_down consent_input ''u1'' db_ada))
   \<and> fst (delete_hcp env_ok ''u1'' req_h1 db_ada)
     = Inr \<lparr> res_status = 200, res_data = DeletedData ''h1'' \<rparr>
   \<and> map action (audit_log (snd (delete_hcp env_ok ''u1'' req_h1 db_ada))) = [DELETE]"
proof -
  note T = mutation_committed_before_audit
  have down: "\<not> audit_insert_ok env_audit_down" and up: "audit_insert_ok env_ok"
    by (simp_all add: env_audit_down_def env_ok_def)
  have p: "params_id req_h1 = ''h1''" by (simp add: req_h1_def)
  have "\<exists>hcp. fst (create demo_lib demo_cfg env_audit_down input_ada db_empty) = Inr hcp"
    by (simp add: create_def getById_def decryptHCPRow_def decryptIfTruthy_def encryptIfTruthy_def
        hashIfTruthy_def input_ada_def service_defs demo_defs Let_def)
  then obtain hcp where c: "create demo_lib demo_cfg env_audit_down input_ada db_empty
      = (Inr hcp, snd (create demo_lib demo_cfg env_audit_down input_ada db_empty))"
    by (metis prod.collapse)
  have 1: "post_hcps demo_lib demo_cfg env_audit_down ''u1'' req_h1 input_ada db_empty
     = (Inl DatabaseError, snd (create demo_lib demo_cfg env_audit_down input_ada db_empty))"
    using T [where lib = demo_lib and cfg = demo_cfg and e = env_audit_down and body = input_ada
        and d = db_empty and hcp = hcp and userId = "''u1''" and req = req_h1
        and d_create = "snd (create demo_lib demo_cfg env_audit_down input_ada db_empty)"] c down
    by (simp add: auditedOutcome_def)
  have "\<exists>prev. getById demo_lib demo_cfg ''h1'' db_ada = Inr prev"
    by (simp add: getById_def decryptHCPRow_def decryptIfTruthy_def service_defs demo_defs)
  then obtain prev where g: "getById demo_lib demo_cfg ''h1'' db_ada = Inr prev" by blast
  have "\<exists>upd. fst (update demo_lib demo_cfg env_audit_down ''h1'' to_cardiology db_ada) = Inr upd"
    by (simp add: update_def buildUpdates_def nonPIIUpdates_def setIfDefined_def
      to_cardiology_def no_changes_def getById_def decryptHCPRow_def decryptIfTruthy_def
      service_defs demo_defs Let_def)
  then obtain upd where u: "update demo_lib demo_cfg env_audit_down ''h1'' to_cardiology db_ada
      = (Inr upd, snd (update demo_lib demo_cfg env_audit_down ''h1'' to_cardiology db_ada))"
    by (metis prod.collapse)
  have 2: "patch_hcp demo_lib demo_cfg env_audit_down ''u1'' req_h1 to_cardiology db_ada
     = (Inl DatabaseError, snd (update demo_lib demo_cfg env_audit_down ''h1'' to_cardiology db_ada))"
    using T [where lib = demo_lib and cfg = demo_cfg and e = env_audit_down and d = db_ada
        and userId = "''u1''" and req = req_h1 and previousHcp = prev and changes = to_cardiology
        and updatedHcp = upd
        and d_update = "snd (update demo_lib demo_cfg env_audit_down ''h1'' to_cardiology db_ada)"]
      g u down p
    by (simp add: auditedOutcome_def)
  have "fst (softDelete env_audit_down ''h1'' db_ada) = Inr ()"
    by (simp add: softDelete_def service_defs demo_defs)
  then have s: "softDelete env_audit_down ''h1'' db_ada
      = (Inr (), snd (softDelete env_audit_down ''h1'' db_ada))"
    by (metis prod.collapse)
  have 3: "delete_hcp env_audit_down ''u1'' req_h1 db_ada
     = (Inl DatabaseError, snd (softDelete env_audit_down ''h1'' db_ada))"
    using T [where e = env_audit_down and d = db_ada and userId = "''u1''" and req = req_h1
        and d_delete = "snd (softDelete env_audit_down ''h1'' db_ada)"] s down p
    by (simp add: auditedOutcome_def)
  have "fst (anonymize demo_lib demo_cfg env_audit_down ''h1'' db_ada) = Inr ()"
    by (simp add: anonymize_def service_defs demo_defs)
  then have a: "anonymize demo_lib demo_cfg env_audit_down ''h1'' db_ada
      = (Inr (), snd (anonymize demo_lib demo_cfg env_audit_down ''h1'' db_ada))"
    by (metis prod.collapse)
  have 4: "post_hcp_anonymize demo_lib demo_cfg env_audit_down ''u1'' req_h1 db_ada
     = (Inl DatabaseError, snd (anonymize demo_lib demo_cfg env_audit_down ''h1'' db_ada))"
    using T [where lib = demo_lib and cfg = demo_cfg and e = env_audit_down and d = db_ada
        and userId = "''u1''" and req = req_h1
        and d_anon = "snd (anonymize demo_lib demo_cfg env_audit_down ''h1'' db_ada)"] a down p
    by (simp add: auditedOutcome_def)
  have "\<exists>consent. fst (recordConsent env_audit_down consent_input ''u1'' db_ada) = Inr consent"
    by (simp add: recordConsent_def consent_input_def demo_defs Let_def)
  then obtain consent where r: "recordConsent env_audit_down consent_input ''u1'' db_ada
      = (Inr consent, snd (recordConsent env_audit_down consent_input ''u1'' db_ada))"
    by (metis prod.collapse)
  have 5: "post_hcp_consents env_audit_down ''u1'' req_h1 consent_input db_ada
     = (Inl DatabaseError, snd (recordConsent env_audit_down consent_input ''u1'' db_ada))"
    using T [where e = env_audit_down and d = db_ada and userId = "''u1''" and req = req_h1
        and input = consent_input and consent = consent
        and d_consent = "snd (recordConsent env_audit_down consent_input ''u1'' db_ada)"] r down
    by (simp add: auditedOutcome_def)
  have "fst (softDelete env_ok ''h1'' db_ada) = Inr ()"
    by (simp add: softDelete_def service_defs demo_defs)
  then have s': "softDelete env_ok ''h1'' db_ada = (Inr (), snd (softDelete env_ok ''h1'' db_ada))"
    by (metis prod.collapse)
  have al: "audit_log (snd (softDelete env_ok ''h1'' db_ada)) = []"
    by (simp add: softDelete_def service_defs demo_defs)
  have 6: "fst (delete_hcp env_ok ''u1'' req_h1 db_ada)
       = Inr \<lparr> res_status = 200, res_data = DeletedData ''h1'' \<rparr>
     \<and> map action (audit_log (snd (delete_hcp env_ok ''u1'' req_h1 db_ada))) = [DELETE]"
    using T [where e = env_ok and d = db_ada and userId = "''u1''" and req = req_h1
        and d_delete = "snd (softDelete env_ok ''h1'' db_ada)",
        THEN conjunct2, THEN conjunct2, THEN conjunct1] s' up p al
    by (auto simp: auditedOutcome_def)
  from 1 2 3 4 5 6 show ?thesis by blast
qed

section \<open>Update\<close>

lemma set_specialty: "setIfDefined v (\<lambda>x r. r\<lparr> specialty := x \<rparr>) r
    = r\<lparr> specialty := (case v of None \<Rightarrow> specialty r | Some x \<Rightarrow> x) \<rparr>"
  by (cases v) (simp_all add: setIfDefined_def)

lemma set_sub_specialty: "setIfDefined v (\<lambda>x r. r\<lparr> sub_specialty := Some x \<rparr>) r
    = r\<lparr> sub_specialty := (case v of None \<Rightarrow> sub_specialty r | Some x \<Rightarrow> Some x) \<rparr>"
  by (cases v) (simp_all add: setIfDefined_def)

lemma set_influence_level: "setIfDefined v (\<lambda>x r. r\<lparr> influence_level := x \<rparr>) r
    = r\<lparr> influence_level := (case v of None \<Rightarrow> influence_level r | Some x \<Rightarrow> x) \<rparr>"
  by (cases v) (simp_all add: setIfDefined_def)

lemma set_primary_institution_id: "setIfDefined v (\<lambda>x r. r\<lparr> primary_institution_id := Some x \<rparr>) r
    = r\<lparr> primary_institution_id := (case v of None \<Rightarrow> primary_institution_id r | Some x \<Rightarrow> Some x) \<rparr>"
  by (cases v) (simp_all add: setIfDefined_def)

lemma set_territory_id: "setIfDefined v (\<lambda>x r. r\<lparr> territory_id := Some x \<rparr>) r
    = r\<lparr> territory_id := (case v of None \<Rightarrow> territory_id r | Some x \<Rightarrow> Some x) \<rparr>"
  by (cases v) (simp_all add: setIfDefined_def)

lemma set_title: "setIfDefined v (\<lambda>x r. r\<lparr> title := Some x \<rparr>) r
    = r\<lparr> title := (case v of None \<Rightarrow> title r | Some x \<Rightarrow> Some x) \<rparr>"
  by (cases v) (simp_all add: setIfDefined_def)

lemma set_years_of_practice: "setIfDefined v (\<lambda>x r. r\<lparr> years_of_practice := Some x \<rparr>) r
    = r\<lparr> years_of_practice := (case v of None \<Rightarrow> years_of_practice r | Some x \<Rightarrow> Some x) \<rparr>"
  by (cases v) (simp_all add: setIfDefined_def)

lemma set_languages: "setIfDefined v (\<lambda>x r. r\<lparr> languages := x \<rparr>) r
    = r\<lparr> languages := (case v of None \<Rightarrow> languages r | Some x \<Rightarrow> x) \<rparr>"
  by (cases v) (simp_all add: setIfDefined_def)

lemma set_therapeutic_areas: "setIfDefined v (\<lambda>x r. r\<lparr> therapeutic_areas := x \<rparr>) r
    = r\<lparr> therapeutic_areas := (case v of None \<Rightarrow> therapeutic_areas r | Some x \<Rightarrow> x) \<rparr>"
  by (cases v) (simp_all add: setIfDefined_def)

lemma set_metadata: "setIfDefined v (\<lambda>x r. r\<lparr> metadata := x \<rparr>) r
    = r\<lparr> metadata := (case v of None \<Rightarrow> metadata r | Some x \<Rightarrow> x) \<rparr>"
  by (cases v) (simp_all add: setIfDefined_def)

lemmas set_columns = set_specialty set_sub_specialty set_influence_level
  set_primary_institution_id set_territory_id set_title set_years_of_practice set_languages
  set_therapeutic_areas set_metadata

lemma nonPIIUpdates_eq:
  "nonPIIUpdates input r =
     r\<lparr> specialty := (case u_specialty input of None \<Rightarrow> specialty r | Some x \<Rightarrow> x),
        sub_specialty := (case u_subSpecialty input of None \<Rightarrow> sub_specialty r | Some x \<Rightarrow> Some x),
        influence_level := (case u_influenceLevel input of None \<Rightarrow> influence_level r | Some x \<Rightarrow> x),
        primary_institution_id :=
          (case u_primaryInstitutionId input of None \<Rightarrow> primary_institution_id r | Some x \<Rightarrow> Some x),
        territory_id := (case u_territoryId input of None \<Rightarrow> territory_id r | Some x \<Rightarrow> Some x),
        title := (case u_title input of None \<Rightarrow> title r | Some x \<Rightarrow> Some x),
        years_of_practice :=
          (case u_yearsOfPractice input of None \<Rightarrow> years_of_practice r | Some x \<Rightarrow> Some x),
        languages := (case u_languages input of None \<Rightarrow> languages r | Some x \<Rightarrow> x),
        therapeutic_areas :=
          (case u_therapeuticAreas input of None \<Rightarrow> therapeutic_areas r | Some x \<Rightarrow> x),
        metadata := (case u_metadata input of None \<Rightarrow> metadata r | Some x \<Rightarrow> x) \<rparr>"
  by (simp add: nonPIIUpdates_def set_columns cong: option.case_cong)

lemma buildUpdates_ok:
  assumes "key cfg \<noteq> []"
  shows "buildUpdates lib cfg e input = Inr (updatedRow lib cfg e input)"
proof -
  have 1: "(case u_firstName input of
              None \<Rightarrow> Inr (\<lambda>r. r)
            | Some v \<Rightarrow> bindE (encryptPII lib cfg v) (\<lambda>c.
                Inr (\<lambda>r. r\<lparr> first_name_encrypted := c,
                              first_name_hash := hashForIndex lib cfg (toLowerCase lib v) \<rparr>)))
     = Inr (\<lambda>r::hcp_row. r\<lparr> first_name_encrypted :=
             (case u_firstName input of None \<Rightarrow> first_name_encrypted r
              | Some v \<Rightarrow> AES_encrypt lib v (key cfg) (iv cfg)),
           first_name_hash :=
             (case u_firstName input of None \<Rightarrow> first_name_hash r
              | Some v \<Rightarrow> SHA256 lib (toLowerCase lib v @ key cfg)) \<rparr>)"
    using assms by (cases "u_firstName input")
      (simp_all add: encryptPII_def bindE_def hashForIndex_def)
  have 2: "(case u_lastName input of
              None \<Rightarrow> Inr (\<lambda>r. r)
            | Some v \<Rightarrow> bindE (encryptPII lib cfg v) (\<lambda>c.
                Inr (\<lambda>r. r\<lparr> last_name_encrypted := c,
                              last_name_hash := hashForIndex lib cfg (toLowerCase lib v) \<rparr>)))
     = Inr (\<lambda>r::hcp_row. r\<lparr> last_name_encrypted :=
             (case u_lastName input of None \<Rightarrow> last_name_encrypted r
              | Some v \<Rightarrow> AES_encrypt lib v (key cfg) (iv cfg)),
           last_name_hash :=
             (case u_lastName input of None \<Rightarrow> last_name_hash r
              | Some v \<Rightarrow> SHA256 lib (toLowerCase lib v @ key cfg)) \<rparr>)"
    using assms by (cases "u_lastName input")
      (simp_all add: encryptPII_def bindE_def hashForIndex_def)
  have 3: "(case u_email input of
              None \<Rightarrow> Inr (\<lambda>r. r)
            | Some v \<Rightarrow> bindE (encryptIfTruthy lib cfg (Some v)) (\<lambda>c.
                Inr (\<lambda>r. r\<lparr> email_encrypted := c,
                              email_hash := hashIfTruthy lib cfg (toLowerCase lib) (Some v) \<rparr>)))
     = Inr (\<lambda>r::hcp_row. r\<lparr> email_encrypted :=
             (case u_email input of None \<Rightarrow> email_encrypted r
              | Some v \<Rightarrow> if v = [] then None else Some (AES_encrypt lib v (key cfg) (iv cfg))),
           email_hash :=
             (case u_email input of None \<Rightarrow> email_hash r
              | Some v \<Rightarrow> if v = [] then None else Some (SHA256 lib (toLowerCase lib v @ key cfg))) \<rparr>)"
    using assms by (cases "u_email input")
      (simp_all add: encryptIfTruthy_def hashIfTruthy_def encryptPII_def bindE_def hashForIndex_def)
  have 4: "(case u_phone input of
              None \<Rightarrow> Inr (\<lambda>r. r)
            | Some v \<Rightarrow> bindE (encryptIfTruthy lib cfg (Some v)) (\<lambda>c.
                Inr (\<lambda>r. r\<lparr> phone_encrypted := c,
                              phone_hash := hashIfTruthy lib cfg (\<lambda>v. v) (Some v) \<rparr>)))
     = Inr (\<lambda>r::hcp_row. r\<lparr> phone_encrypted :=
             (case u_phone input of None \<Rightarrow> phone_encrypted r
              | Some v \<Rightarrow> if v = [] then None else Some (AES_encrypt lib v (key cfg) (iv cfg))),
           phone_hash :=
             (case u_phone input of None \<Rightarrow> phone_hash r
              | Some v \<Rightarrow> if v = [] then None else Some (SHA256 lib (v @ key cfg))) \<rparr>)"
    using assms by (cases "u_phone input")
      (simp_all add: encryptIfTruthy_def hashIfTruthy_def encryptPII_def bindE_def hashForIndex_def)
  show ?thesis
    unfolding buildUpdates_def 1 2 3 4
    by (simp add: bindE_def updatedRow_def fun_eq_iff cong: option.case_cong)
qed


lemma updatedRow_fields: "updatedFrom lib cfg e input r (updatedRow lib cfg e input r)"
  unfolding updatedFrom_def
  by (simp add: updatedRow_def nonPIIUpdates_eq cong: option.case_cong)

lemma first_live_None: "first_live d i = None \<longleftrightarrow> \<not> (\<exists>r\<in>set (hcps d). hid r = i \<and> deleted_at r = None)"
  by (auto simp: first_live_def find_None_iff)

lemma find_live_map:
  assumes "\<And>r. hid (f r) = hid r" and "\<And>r. deleted_at (f r) = deleted_at r"
  shows "find (\<lambda>r. hid r = i \<and> deleted_at r = None) (map (\<lambda>r. if hid r = i then f r else r) xs)
       = map_option f (find (\<lambda>r. hid r = i \<and> deleted_at r = None) xs)"
  using assms by (induction xs) auto

lemma decryptHCPRow_Inr:
  assumes "decryptHCPRow lib cfg row = Inr v"
  shows "r_specialty v = specialty row \<and> r_influenceLevel v = influence_level row
       \<and> r_id v = hid row \<and> key cfg \<noteq> []"
  using assms
  by (auto simp: decryptHCPRow_def decryptPII_def bindE_def split: sum.splits if_splits)

lemma update_NotFound:
  "first_live d i = None \<Longrightarrow> update lib cfg e i input d = (Inl (NotFoundError ''HCP'' i), d)"
  by (simp add: update_def)

lemma update_rejected:
  assumes "first_live d i = Some existing" and "key cfg \<noteq> []" and "\<not> constraints_ok e"
  shows "update lib cfg e i input d = (Inl DatabaseError, d)"
  using assms by (simp add: update_def buildUpdates_ok)

lemma update_ok:
  assumes "first_live d i = Some existing" and "key cfg \<noteq> []" and "constraints_ok e"
  shows "update lib cfg e i input d
           = (decryptHCPRow lib cfg (updatedRow lib cfg e input existing),
              d\<lparr> hcps := map (\<lambda>r. if hid r = i then updatedRow lib cfg e input r else r) (hcps d) \<rparr>)"
proof -
  let ?f = "updatedRow lib cfg e input"
  let ?d' = "d\<lparr> hcps := map (\<lambda>r. if hid r = i then ?f r else r) (hcps d) \<rparr>"
  have fh: "\<And>r. hid (?f r) = hid r" and fd: "\<And>r. deleted_at (?f r) = deleted_at r"
    using updatedRow_fields [of lib cfg e input] by (simp_all add: updatedFrom_def)
  have "first_live ?d' i = Some (?f existing)"
    using assms(1) find_live_map [of ?f i "hcps d", OF fh fd] by (simp add: first_live_def)
  then have "getById lib cfg i ?d' = decryptHCPRow lib cfg (?f existing)"
    by (simp add: getById_def)
  then show ?thesis
    using assms by (simp add: update_def buildUpdates_ok update_where_id_def)
qed

text \<open>
  C9 (amended). \<open>update\<close> on an identifier without a live (not soft-deleted) row fails
  with \<open>NotFoundError\<close> and changes nothing, and so does the update route. On a live row,
  with key material configured, the write either is rejected by the database and
  nothing changes, or rewrites the rows of that identifier only: each PII attribute that
  is supplied gets its encrypted value and index token recomputed, except that a
  supplied empty email or phone is not encrypted but has both set to null; each
  classification attribute that is supplied is stored; the modification time becomes the
  current time; and every column whose attribute is not supplied keeps its value. The
  method then answers with the decrypted view of the row it wrote. When the update
  route succeeds, the one audit entry it appends carries specialty and influence level,
  and nothing else, as previous and new state.
\<close>

theorem update_frame:
  "((\<not> (\<exists>r\<in>set (hcps d). hid r = i \<and> deleted_at r = None)) \<longrightarrow>
       update lib cfg e i input d = (Inl (NotFoundError ''HCP'' i), d)
     \<and> (params_id req = i \<longrightarrow>
          patch_hcp lib cfg e userId req input d = (Inl (NotFoundError ''HCP'' i), d)))
   \<and> (first_live d i = Some existing \<and> key cfg \<noteq> [] \<and> \<not> constraints_ok e \<longrightarrow>
       update lib cfg e i input d = (Inl DatabaseError, d))
   \<and> (first_live d i = Some existing \<and> key cfg \<noteq> [] \<and> constraints_ok e \<longrightarrow>
       (\<exists>f. update lib cfg e i input d
                = (decryptHCPRow lib cfg (f existing),
                   d\<lparr> hcps := map (\<lambda>r. if hid r = i then f r else r) (hcps d) \<rparr>)
          \<and> (\<forall>r. updatedFrom lib cfg e input r (f r))))
   \<and> (first_live d i = Some existing \<and> params_id req = i
        \<and> fst (patch_hcp lib cfg e userId req input d) = Inr response \<longrightarrow>
          (\<exists>entry. audit_log (snd (patch_hcp lib cfg e userId req input d)) = audit_log d @ [entry]
              \<and> action entry = UPDATE \<and> entity_type entry = ''hcp'' \<and> entity_id entry = Some i
              \<and> previous_state entry =
                    Some (JObj [(''specialty'', JStr (specialty existing)),
                                (''influenceLevel'', JStr (influence_level existing))])
              \<and> new_state entry =
                    Some (JObj [(''specialty'',
                                 JStr (case u_specialty input of None \<Rightarrow> specialty existing
                                       | Some v \<Rightarrow> v)),
                                (''influenceLevel'',
                                 JStr (case u_influenceLevel input of
                                         None \<Rightarrow> influence_level existing | Some v \<Rightarrow> v))])
              \<and> a_metadata entry = JObj []))"
proof (intro conjI impI)
  assume "\<not> (\<exists>r\<in>set (hcps d). hid r = i \<and> deleted_at r = None)"
  then have n: "first_live d i = None" by (simp add: first_live_None)
  then show "update lib cfg e i input d = (Inl (NotFoundError ''HCP'' i), d)"
    by (rule update_NotFound)
  show "patch_hcp lib cfg e userId req input d = (Inl (NotFoundError ''HCP'' i), d)"
    if "params_id req = i"
    using that n by (simp add: patch_hcp_def bindS_def readS_def getById_def)
next
  assume "first_live d i = Some existing \<and> key cfg \<noteq> [] \<and> \<not> constraints_ok e"
  then show "update lib cfg e i input d = (Inl DatabaseError, d)"
    using update_rejected [of d i existing cfg e lib input] by blast
next
  assume a: "first_live d i = Some existing \<and> key cfg \<noteq> [] \<and> constraints_ok e"
  let ?f = "updatedRow lib cfg e input"
  from a have "update lib cfg e i input d
                = (decryptHCPRow lib cfg (?f existing),
                   d\<lparr> hcps := map (\<lambda>r. if hid r = i then ?f r else r) (hcps d) \<rparr>)"
    using update_ok [of d i existing cfg e lib input] by blast
  moreover have "\<forall>r. updatedFrom lib cfg e input r (?f r)"
    by (simp add: updatedRow_fields)
  ultimately show "\<exists>f. update lib cfg e i input d
                = (decryptHCPRow lib cfg (f existing),
                   d\<lparr> hcps := map (\<lambda>r. if hid r = i then f r else r) (hcps d) \<rparr>)
          \<and> (\<forall>r. updatedFrom lib cfg e input r (f r))"
    by blast
next
  assume a: "first_live d i = Some existing \<and> params_id req = i
        \<and> fst (patch_hcp lib cfg e userId req input d) = Inr response"
  let ?f = "updatedRow lib cfg e input"
  let ?d' = "d\<lparr> hcps := map (\<lambda>r. if hid r = i then ?f r else r) (hcps d) \<rparr>"
  from a have l: "first_live d i = Some existing" and p: "params_id req = i"
    and ok: "fst (patch_hcp lib cfg e userId req input d) = Inr response" by simp_all
  have g: "getById lib cfg i d = decryptHCPRow lib cfg existing"
    using l by (simp add: getById_def)
  from ok p g obtain prev where prev: "decryptHCPRow lib cfg existing = Inr prev"
    by (cases "decryptHCPRow lib cfg existing")
       (simp_all add: patch_hcp_def bindS_def readS_def)
  from decryptHCPRow_Inr [OF prev] have k: "key cfg \<noteq> []"
    and pv: "r_specialty prev = specialty existing"
            "r_influenceLevel prev = influence_level existing"
    by simp_all
  have c: "constraints_ok e"
  proof (rule ccontr)
    assume "\<not> constraints_ok e"
    from update_rejected [OF l k this, of lib input] ok p g prev show False
      by (simp add: patch_hcp_def bindS_def readS_def)
  qed
  note u = update_ok [OF l k c, of lib input]
  from ok p g prev u obtain hcp where hcp: "decryptHCPRow lib cfg (?f existing) = Inr hcp"
    by (cases "decryptHCPRow lib cfg (?f existing)")
       (simp_all add: patch_hcp_def bindS_def readS_def)
  from decryptHCPRow_Inr [OF hcp]
  have hv: "r_specialty hcp = specialty (?f existing)"
           "r_influenceLevel hcp = influence_level (?f existing)"
    by simp_all
  have s: "specialty (?f existing) =
             (case u_specialty input of None \<Rightarrow> specialty existing | Some v \<Rightarrow> v)"
     "influence_level (?f existing) =
             (case u_influenceLevel input of None \<Rightarrow> influence_level existing | Some v \<Rightarrow> v)"
    using updatedRow_fields [of lib cfg e input existing] by (simp_all add: updatedFrom_def)
  have o: "audit_insert_ok e"
  proof (rule ccontr)
    assume "\<not> audit_insert_ok e"
    with ok p g prev u hcp show False
      by (simp add: patch_hcp_def bindS_def readS_def createAuditEntry_def)
  qed
  show "(\<exists>entry. audit_log (snd (patch_hcp lib cfg e userId req input d)) = audit_log d @ [entry]
              \<and> action entry = UPDATE \<and> entity_type entry = ''hcp'' \<and> entity_id entry = Some i
              \<and> previous_state entry =
                    Some (JObj [(''specialty'', JStr (specialty existing)),
                                (''influenceLevel'', JStr (influence_level existing))])
              \<and> new_state entry =
                    Some (JObj [(''specialty'',
                                 JStr (case u_specialty input of None \<Rightarrow> specialty existing
                                       | Some v \<Rightarrow> v)),
                                (''influenceLevel'',
                                 JStr (case u_influenceLevel input of
                                         None \<Rightarrow> influence_level existing | Some v \<Rightarrow> v))])
              \<and> a_metadata entry = JObj [])"
    using p g prev u hcp pv hv s o
    by (simp add: patch_hcp_def bindS_def readS_def createAuditEntry_def returnS_def
        classification_def)
qed

lemmas update_defs = update_def buildUpdates_def nonPIIUpdates_def setIfDefined_def
  to_cardiology_def no_changes_def clear_phone_def getById_def decryptHCPRow_def
  decryptIfTruthy_def encryptIfTruthy_def hashIfTruthy_def

theorem update_frame_witness:
  "\<not> (\<exists>r\<in>set (hcps db_ada_deleted). hid r = ''h1'' \<and> deleted_at r = None)
   \<and> patch_hcp demo_lib demo_cfg env_ok ''u1'' req_h1 to_cardiology db_ada_deleted
        = (Inl (NotFoundError ''HCP'' ''h1''), db_ada_deleted)
   \<and> first_live db_ada ''h1'' = Some row_ada \<and> key demo_cfg \<noteq> [] \<and> constraints_ok env_ok
   \<and> \<not> constraints_ok (env_ok\<lparr> constraints_ok := False \<rparr>)
   \<and> update demo_lib demo_cfg (env_ok\<lparr> constraints_ok := False \<rparr>) ''h1'' to_cardiology db_ada
        = (Inl DatabaseError, db_ada)
   \<and> u_externalId to_cardiology = None
   \<and> map external_id (hcps (snd (update demo_lib demo_cfg env_ok ''h1'' to_cardiology db_ada)))
        = [Some ''NPI-1'']
   \<and> map specialty (hcps (snd (update demo_lib demo_cfg env_ok ''h1'' to_cardiology db_ada)))
        = [''cardiology'']
   \<and> map first_name_encrypted (hcps (snd (update demo_lib demo_cfg env_ok ''h1'' to_cardiology db_ada)))
        = [''00ff|0a0b|adA'']
   \<and> params_id req_h1 = ''h1''
   \<and> (\<exists>response. fst (patch_hcp demo_lib demo_cfg env_ok ''u1'' req_h1 to_cardiology db_ada)
         = Inr response)
   \<and> map new_state (audit_log (snd (patch_hcp demo_lib demo_cfg env_ok ''u1'' req_h1 to_cardiology db_ada)))
        = [Some (JObj [(''specialty'', JStr ''cardiology''), (''influenceLevel'', JStr ''high'')])]
   \<and> map previous_state (audit_log (snd (patch_hcp demo_lib demo_cfg env_ok ''u1'' req_h1 to_cardiology db_ada)))
        = [Some (JObj [(''specialty'', JStr ''oncology''), (''influenceLevel'', JStr ''high'')])]"
proof -
  note T = update_frame [where lib = demo_lib and cfg = demo_cfg and i = "''h1''"
      and req = req_h1 and userId = "''u1''" and input = to_cardiology]
  have n: "\<not> (\<exists>r\<in>set (hcps db_ada_deleted). hid r = ''h1'' \<and> deleted_at r = None)"
    by (simp add: demo_defs)
  have l: "first_live db_ada ''h1'' = Some row_ada" and k: "key demo_cfg \<noteq> []"
    and p: "params_id req_h1 = ''h1''" and c: "constraints_ok env_ok"
    and nc: "\<not> constraints_ok (env_ok\<lparr> constraints_ok := False \<rparr>)"
    by (simp_all add: first_live_def demo_defs)
  have al: "audit_log db_ada = []" "hcps db_ada = [row_ada]" by (simp_all add: demo_defs)
  have v: "specialty row_ada = ''oncology''" "influence_level row_ada = ''high''"
     "u_specialty to_cardiology = Some ''cardiology''" "u_influenceLevel to_cardiology = None"
     "u_externalId to_cardiology = None" "u_firstName to_cardiology = None"
     "external_id row_ada = Some ''NPI-1''" "first_name_encrypted row_ada = ''00ff|0a0b|adA''"
     "hid row_ada = ''h1''"
    by (simp_all add: row_ada_def to_cardiology_def no_changes_def)
  have 1: "patch_hcp demo_lib demo_cfg env_ok ''u1'' req_h1 to_cardiology db_ada_deleted
        = (Inl (NotFoundError ''HCP'' ''h1''), db_ada_deleted)"
    using T [where d = db_ada_deleted and e = env_ok, THEN conjunct1] n p by simp
  have 2: "update demo_lib demo_cfg (env_ok\<lparr> constraints_ok := False \<rparr>) ''h1'' to_cardiology db_ada
        = (Inl DatabaseError, db_ada)"
    using T [where d = db_ada and e = "env_ok\<lparr> constraints_ok := False \<rparr>" and existing = row_ada,
        THEN conjunct2, THEN conjunct1] l k nc by simp
  from T [where d = db_ada and e = env_ok and existing = row_ada,
        THEN conjunct2, THEN conjunct2, THEN conjunct1] l k c
  obtain f where f: "update demo_lib demo_cfg env_ok ''h1'' to_cardiology db_ada
                = (decryptHCPRow demo_lib demo_cfg (f row_ada),
                   db_ada\<lparr> hcps := map (\<lambda>r. if hid r = ''h1'' then f r else r) (hcps db_ada) \<rparr>)"
      "updatedFrom demo_lib demo_cfg env_ok to_cardiology row_ada (f row_ada)"
    by blast
  from f v al have 3:
    "map external_id (hcps (snd (update demo_lib demo_cfg env_ok ''h1'' to_cardiology db_ada)))
        = [Some ''NPI-1'']"
    "map specialty (hcps (snd (update demo_lib demo_cfg env_ok ''h1'' to_cardiology db_ada)))
        = [''cardiology'']"
    "map first_name_encrypted (hcps (snd (update demo_lib demo_cfg env_ok ''h1'' to_cardiology db_ada)))
        = [''00ff|0a0b|adA'']"
    by (simp_all add: updatedFrom_def)
  have ok: "\<exists>response. fst (patch_hcp demo_lib demo_cfg env_ok ''u1'' req_h1 to_cardiology db_ada)
         = Inr response"
    by (simp add: patch_hcp_def update_defs service_defs demo_defs Let_def)
  then obtain resp where
    r: "fst (patch_hcp demo_lib demo_cfg env_ok ''u1'' req_h1 to_cardiology db_ada) = Inr resp"
    by blast
  have 4: "map new_state (audit_log (snd (patch_hcp demo_lib demo_cfg env_ok ''u1'' req_h1 to_cardiology db_ada)))
        = [Some (JObj [(''specialty'', JStr ''cardiology''), (''influenceLevel'', JStr ''high'')])]
     \<and> map previous_state (audit_log (snd (patch_hcp demo_lib demo_cfg env_ok ''u1'' req_h1 to_cardiology db_ada)))
        = [Some (JObj [(''specialty'', JStr ''oncology''), (''influenceLevel'', JStr ''high'')])]"
    using T [where d = db_ada and e = env_ok and existing = row_ada and response = resp,
        THEN conjunct2, THEN conjunct2, THEN conjunct2] l p r al v
    by auto
  from n 1 l k c nc 2 v(5) 3 p ok 4 show ?thesis by blast
qed

text \<open>
  C9 as stated fails: a supplied phone that is the empty string is not encrypted and
  indexed; its stored encrypted value and token become null.
\<close>

theorem update_frame_counterexample:
  "u_phone clear_phone = Some []
   \<and> encryptPII demo_lib demo_cfg [] = Inr ''00ff|0a0b|''
   \<and> map phone_encrypted (hcps db_ada) = [Some ''00ff|0a0b|LLAC-555'']
   \<and> fst (update demo_lib demo_cfg env_ok ''h1'' clear_phone db_ada) \<noteq> Inl DatabaseError
   \<and> map phone_encrypted (hcps (snd (update demo_lib demo_cfg env_ok ''h1'' clear_phone db_ada)))
        = [None]
   \<and> map phone_hash (hcps (snd (update demo_lib demo_cfg env_ok ''h1'' clear_phone db_ada)))
        = [None]"
  by (simp add: update_defs service_defs demo_defs Let_def)

section \<open>Index tokens\<close>

lemma encryptIfTruthy_ok:
  "key cfg \<noteq> [] \<Longrightarrow> encryptIfTruthy lib cfg v =
     Inr (case v of None \<Rightarrow> None
          | Some s \<Rightarrow> if s = [] then None else Some (AES_encrypt lib s (key cfg) (iv cfg)))"
  by (cases v) (simp_all add: encryptIfTruthy_def encryptPII_def bindE_def)

lemma hashIfTruthy_eq:
  "hashIfTruthy lib cfg f v =
     (case v of None \<Rightarrow> None | Some s \<Rightarrow> if s = [] then None else Some (SHA256 lib (f s @ key cfg)))"
  by (cases v) (simp_all add: hashIfTruthy_def hashForIndex_def)

lemma create_unconfigured:
  "key cfg = [] \<Longrightarrow> create lib cfg e input d = (Inl EncryptionKeyNotConfigured, d)"
  by (simp add: create_def encryptPII_def bindE_def)

lemma create_rows:
  "hcps (snd (create lib cfg e input d)) = hcps d
   \<or> (\<exists>row. hcps (snd (create lib cfg e input d)) = hcps d @ [row] \<and> indexedAs lib cfg input row)"
proof (cases "key cfg = []")
  case True
  then show ?thesis by (simp add: create_unconfigured)
next
  case False
  then show ?thesis
    by (simp add: create_def encryptPII_ok encryptIfTruthy_ok hashIfTruthy_eq hashForIndex_def
        bindE_def insert_hcps_def indexedAs_def)
qed

lemma create_Inr:
  assumes "create lib cfg e input d = (Inr hcp, d')"
  shows "\<exists>row. hcps d' = hcps d @ [row] \<and> indexedAs lib cfg input row"
proof (cases "key cfg = []")
  case True
  with assms show ?thesis by (simp add: create_unconfigured)
next
  case False
  with assms show ?thesis
    by (auto simp: create_def encryptPII_ok encryptIfTruthy_ok hashIfTruthy_eq hashForIndex_def
        bindE_def insert_hcps_def indexedAs_def split: if_splits)
qed

text \<open>
  C8 (amended). \<open>hashForIndex\<close> is the digest of its argument followed by the key, with
  no normalisation of its own. Every row that \<open>create\<close> stores has as first-name,
  last-name and email tokens the keyed digests of the lower-cased values, so two inputs
  whose names or emails have the same lower-cased form get the same token; its phone
  token is the keyed digest of the phone value as given. \<open>create\<close> stores at most one
  row, and one when it succeeds.
\<close>

theorem index_tokens_persisted:
  "(\<forall>v. hashForIndex lib cfg v = SHA256 lib (v @ key cfg))
   \<and> (hcps (snd (create lib cfg e input d)) = hcps d
       \<or> (\<exists>row. hcps (snd (create lib cfg e input d)) = hcps d @ [row]
                \<and> indexedAs lib cfg input row))
   \<and> (\<forall>hcp d'. create lib cfg e input d = (Inr hcp, d') \<longrightarrow>
         (\<exists>row. hcps d' = hcps d @ [row] \<and> indexedAs lib cfg input row))
   \<and> (\<forall>row row' e' input' d'.
         hcps (snd (create lib cfg e input d)) = hcps d @ [row] \<and>
         hcps (snd (create lib cfg e' input' d')) = hcps d' @ [row'] \<longrightarrow>
           (toLowerCase lib (c_firstName input') = toLowerCase lib (c_firstName input) \<longrightarrow>
              first_name_hash row' = first_name_hash row)
         \<and> (toLowerCase lib (c_lastName input') = toLowerCase lib (c_lastName input) \<longrightarrow>
              last_name_hash row' = last_name_hash row)
         \<and> (\<forall>v v'. c_email input = Some v \<and> c_email input' = Some v' \<and> v \<noteq> [] \<and> v' \<noteq> []
                    \<and> toLowerCase lib v' = toLowerCase lib v \<longrightarrow>
              email_hash row' = email_hash row))"
proof -
  have stored: "indexedAs lib cfg input row"
    if "hcps (snd (create lib cfg e input d)) = hcps d @ [row]" for e input d row
    using that create_rows [of lib cfg e input d] by auto
  have 1: "\<forall>v. hashForIndex lib cfg v = SHA256 lib (v @ key cfg)"
    by (simp add: hashForIndex_def)
  note 2 = create_rows [of lib cfg e input d]
  have 3: "\<forall>hcp d'. create lib cfg e input d = (Inr hcp, d') \<longrightarrow>
         (\<exists>row. hcps d' = hcps d @ [row] \<and> indexedAs lib cfg input row)"
    using create_Inr by blast
  have 4: "\<forall>row row' e' input' d'.
         hcps (snd (create lib cfg e input d)) = hcps d @ [row] \<and>
         hcps (snd (create lib cfg e' input' d')) = hcps d' @ [row'] \<longrightarrow>
           (toLowerCase lib (c_firstName input') = toLowerCase lib (c_firstName input) \<longrightarrow>
              first_name_hash row' = first_name_hash row)
         \<and> (toLowerCase lib (c_lastName input') = toLowerCase lib (c_lastName input) \<longrightarrow>
              last_name_hash row' = last_name_hash row)
         \<and> (\<forall>v v'. c_email input = Some v \<and> c_email input' = Some v' \<and> v \<noteq> [] \<and> v' \<noteq> []
                    \<and> toLowerCase lib v' = toLowerCase lib v \<longrightarrow>
              email_hash row' = email_hash row)"
  proof (intro allI impI)
    fix row row' e' input' d'
    assume a: "hcps (snd (create lib cfg e input d)) = hcps d @ [row] \<and>
         hcps (snd (create lib cfg e' input' d')) = hcps d' @ [row']"
    from a stored have r: "indexedAs lib cfg input row" by blast
    from a stored have r': "indexedAs lib cfg input' row'" by blast
    from r r' show "(toLowerCase lib (c_firstName input') = toLowerCase lib (c_firstName input) \<longrightarrow>
              first_name_hash row' = first_name_hash row)
         \<and> (toLowerCase lib (c_lastName input') = toLowerCase lib (c_lastName input) \<longrightarrow>
              last_name_hash row' = last_name_hash row)
         \<and> (\<forall>v v'. c_email input = Some v \<and> c_email input' = Some v' \<and> v \<noteq> [] \<and> v' \<noteq> []
                    \<and> toLowerCase lib v' = toLowerCase lib v \<longrightarrow>
              email_hash row' = email_hash row)"
      by (auto simp: indexedAs_def)
  qed
  from 1 2 3 4 show ?thesis by blast
qed

lemmas create_defs = create_def getById_def decryptHCPRow_def decryptIfTruthy_def
  encryptIfTruthy_def hashIfTruthy_def input_ada_def input_ada_lower_def

theorem index_tokens_persisted_witness:
  "(\<exists>hcp. fst (create demo_lib demo_cfg env_ok input_ada db_empty) = Inr hcp)
   \<and> (\<exists>hcp. fst (create demo_lib demo_cfg env_second input_ada_lower db_ada) = Inr hcp)
   \<and> map hid (hcps (snd (create demo_lib demo_cfg env_second input_ada_lower db_ada)))
       = [''h1'', ''h2'']
   \<and> c_firstName input_ada_lower \<noteq> c_firstName input_ada
   \<and> toLowerCase demo_lib (c_firstName input_ada_lower)
       = toLowerCase demo_lib (c_firstName input_ada)
   \<and> toLowerCase demo_lib (c_lastName input_ada_lower)
       = toLowerCase demo_lib (c_lastName input_ada)
   \<and> c_email input_ada = Some ''a@x.com'' \<and> c_email input_ada_lower = Some ''A@X.COM''
   \<and> toLowerCase demo_lib ''A@X.COM'' = toLowerCase demo_lib ''a@x.com''
   \<and> first_name_hash (last (hcps (snd (create demo_lib demo_cfg env_second input_ada_lower db_ada))))
       = first_name_hash (last (hcps (snd (create demo_lib demo_cfg env_ok input_ada db_empty))))
   \<and> last_name_hash (last (hcps (snd (create demo_lib demo_cfg env_second input_ada_lower db_ada))))
       = last_name_hash (last (hcps (snd (create demo_lib demo_cfg env_ok input_ada db_empty))))
   \<and> email_hash (last (hcps (snd (create demo_lib demo_cfg env_second input_ada_lower db_ada))))
       = email_hash (last (hcps (snd (create demo_lib demo_cfg env_ok input_ada db_empty))))
   \<and> map first_name_hash (hcps (snd (create demo_lib demo_cfg env_ok input_ada db_empty)))
       = [''ada'' @ demo_key]"
proof -
  let ?d1 = "snd (create demo_lib demo_cfg env_ok input_ada db_empty)"
  let ?d2 = "snd (create demo_lib demo_cfg env_second input_ada_lower db_ada)"
  note T = index_tokens_persisted [where lib = demo_lib and cfg = demo_cfg and e = env_ok
      and input = input_ada and d = db_empty]
  have s1: "\<exists>hcp. fst (create demo_lib demo_cfg env_ok input_ada db_empty) = Inr hcp"
    by (simp add: create_defs service_defs demo_defs)
  have s2: "\<exists>hcp. fst (create demo_lib demo_cfg env_second input_ada_lower db_ada) = Inr hcp"
    by (simp add: create_defs service_defs demo_defs)
  have ids: "map hid (hcps ?d2) = [''h1'', ''h2'']"
    by (simp add: create_defs service_defs demo_defs)
  have t: "c_firstName input_ada_lower \<noteq> c_firstName input_ada"
    "toLowerCase demo_lib (c_firstName input_ada_lower)
       = toLowerCase demo_lib (c_firstName input_ada)"
    "toLowerCase demo_lib (c_lastName input_ada_lower)
       = toLowerCase demo_lib (c_lastName input_ada)"
    "c_email input_ada = Some ''a@x.com''" "c_email input_ada_lower = Some ''A@X.COM''"
    "toLowerCase demo_lib ''A@X.COM'' = toLowerCase demo_lib ''a@x.com''"
    by (simp_all add: input_ada_lower_def input_ada_def demo_lib_def demo_lowerChar_def)
  have v: "map first_name_hash (hcps ?d1) = [''ada'' @ demo_key]"
    by (simp add: create_defs service_defs demo_defs)
  from s1 obtain h1 where "create demo_lib demo_cfg env_ok input_ada db_empty = (Inr h1, ?d1)"
    by (metis prod.collapse)
  from T [THEN conjunct2, THEN conjunct2, THEN conjunct1] this
  obtain row where r: "hcps ?d1 = hcps db_empty @ [row]" by blast
  from s2 obtain h2 where c2: "create demo_lib demo_cfg env_second input_ada_lower db_ada = (Inr h2, ?d2)"
    by (metis prod.collapse)
  from index_tokens_persisted [where lib = demo_lib and cfg = demo_cfg and e = env_second
      and input = input_ada_lower and d = db_ada, THEN conjunct2, THEN conjunct2, THEN conjunct1] c2
  obtain row' where r': "hcps ?d2 = hcps db_ada @ [row']" by blast
  from T [THEN conjunct2, THEN conjunct2, THEN conjunct2, THEN spec, of row,
      THEN spec, of row', THEN spec, of env_second, THEN spec, of input_ada_lower,
      THEN spec, of db_ada] r r' t
  have "first_name_hash row' = first_name_hash row \<and> last_name_hash row' = last_name_hash row
       \<and> email_hash row' = email_hash row"
    by simp
  with r r' have e: "first_name_hash (last (hcps ?d2)) = first_name_hash (last (hcps ?d1))"
     "last_name_hash (last (hcps ?d2)) = last_name_hash (last (hcps ?d1))"
     "email_hash (last (hcps ?d2)) = email_hash (last (hcps ?d1))"
    by simp_all
  from s1 s2 ids t e v show ?thesis by blast
qed

text \<open>
  C8 as stated fails: the phone token that \<open>create\<close> stores is the digest of the phone
  value as given, not of its lower-cased form, and \<open>hashForIndex\<close> does not lower-case
  its argument.
\<close>

theorem phone_token_counterexample:
  "c_phone input_ada = Some ''555-CALL''
   \<and> toLowerCase demo_lib ''555-CALL'' = ''555-call''
   \<and> (\<exists>hcp. fst (create demo_lib demo_cfg env_ok input_ada db_empty) = Inr hcp)
   \<and> map phone_hash (hcps (snd (create demo_lib demo_cfg env_ok input_ada db_empty)))
        = [Some (''555-CALL'' @ demo_key)]
   \<and> hashForIndex demo_lib demo_cfg (toLowerCase demo_lib ''555-CALL'') = ''555-call'' @ demo_key
   \<and> map phone_hash (hcps (snd (create demo_lib demo_cfg env_ok input_ada db_empty)))
        \<noteq> [Some (hashForIndex demo_lib demo_cfg (toLowerCase demo_lib ''555-CALL''))]
   \<and> hashForIndex demo_lib demo_cfg ''Ada''
        \<noteq> hashForIndex demo_lib demo_cfg (toLowerCase demo_lib ''Ada'')"
  by (simp add: create_defs service_defs demo_defs)

end
